theory Spec2Isabelle
  imports Complex_Main "HOL-Library.AList" "HOL-Library.Char_ord" "HOL-Library.List_Lexorder"
begin

section \<open>Brazil agricultural data service (data\_service.py)\<close>

text \<open>
  A shallow embedding of \<^verbatim>\<open>BrazilAgDataService\<close>. Conventions of the model:
  \<^item> a Python \<^verbatim>\<open>dict\<close> is an association list in insertion order;
    \<^verbatim>\<open>d[k] = v\<close> is \<open>AList.update k v d\<close> (replace in place, or append),
    \<^verbatim>\<open>d.get(k, dflt)\<close> is a \<open>map_of\<close> lookup with a default;
  \<^item> the scalar values found in rows are the datatype \<open>jval\<close>; a Python \<^verbatim>\<open>float\<close>
    is an exact rational, so \<^verbatim>\<open>round(x, n)\<close> rounds the exact value half-to-even;
  \<^item> \<^verbatim>\<open>datetime.now()\<close> is a parameter \<open>now\<close> of every operation that reads the
    clock; the readings taken during one fetch are that one instant, and the
    dashboard, which makes many fetches, takes a sequence \<open>clk\<close> of readings;
  \<^item> the values stored in \<^verbatim>\<open>self._cache\<close> are lists of rows (the only values the
    service stores);
  \<^item> an exception is the \<open>Inl\<close> branch of a sum type.
\<close>

subsection \<open>Python values\<close>

datatype py_error = TypeError | IndexError | KeyError | ValueError

datatype jval = JNone | JBool bool | JInt int | JFloat rat | JStr string

type_synonym row = "(string \<times> jval) list"

record datetime =
  dt_year :: nat
  dt_month :: nat
  dt_day :: nat
  dt_hour :: nat
  dt_minute :: nat
  dt_second :: nat
  dt_microsecond :: nat

text \<open>Truth value of a Python object, as \<^verbatim>\<open>if x\<close> and \<^verbatim>\<open>x or y\<close> test it.\<close>

fun truthy :: "jval \<Rightarrow> bool" where
  "truthy JNone = False"
| "truthy (JBool b) = b"
| "truthy (JInt i) = (i \<noteq> 0)"
| "truthy (JFloat r) = (r \<noteq> 0)"
| "truthy (JStr s) = (s \<noteq> [])"

text \<open>\<^verbatim>\<open>d.get(k, dflt)\<close>.\<close>

definition dict_get :: "('k \<times> 'v) list \<Rightarrow> 'k \<Rightarrow> 'v \<Rightarrow> 'v" where
  "dict_get d k dflt = (case map_of d k of None \<Rightarrow> dflt | Some v \<Rightarrow> v)"

text \<open>\<^verbatim>\<open>list(d.keys())\<close> and \<^verbatim>\<open>k in d\<close>.\<close>

definition dict_keys :: "('k \<times> 'v) list \<Rightarrow> 'k list" where
  "dict_keys d = map fst d"

definition dict_has :: "('k \<times> 'v) list \<Rightarrow> 'k \<Rightarrow> bool" where
  "dict_has d k = (map_of d k \<noteq> None)"

text \<open>
  Python slices \<^verbatim>\<open>xs[i:]\<close> and \<^verbatim>\<open>xs[:i]\<close>: a negative bound counts from the end,
  and bounds are clamped to the list.
\<close>

definition slice_bound :: "int \<Rightarrow> 'a list \<Rightarrow> nat" where
  "slice_bound i xs =
     (let n = int (length xs) in nat (if i < 0 then max (n + i) 0 else min i n))"

definition slice_from :: "int \<Rightarrow> 'a list \<Rightarrow> 'a list" where
  "slice_from i xs = drop (slice_bound i xs) xs"

definition slice_to :: "int \<Rightarrow> 'a list \<Rightarrow> 'a list" where
  "slice_to i xs = take (slice_bound i xs) xs"

text \<open>
  \<^verbatim>\<open>round(x, n)\<close> on a float: the nearest multiple of \<open>10\<^sup>-\<^sup>n\<close>, ties to the
  even one. On an \<^verbatim>\<open>int\<close> (and \<open>n \<ge> 0\<close>) it returns the integer unchanged.
\<close>

definition round_half_even :: "rat \<Rightarrow> int" where
  "round_half_even x =
     (let f = \<lfloor>x\<rfloor>; d = x - of_int f in
      if d < 1 / 2 then f
      else if 1 / 2 < d then f + 1
      else if even f then f else f + 1)"

definition round_dec :: "nat \<Rightarrow> rat \<Rightarrow> rat" where
  "round_dec n x = of_int (round_half_even (x * 10 ^ n)) / 10 ^ n"

fun py_round :: "jval \<Rightarrow> nat \<Rightarrow> py_error + jval" where
  "py_round (JInt i) n = Inr (JInt i)"
| "py_round (JBool b) n = Inr (JInt (if b then 1 else 0))"
| "py_round (JFloat r) n = Inr (JFloat (round_dec n r))"
| "py_round _ n = Inl TypeError"

text \<open>
  \<^verbatim>\<open>acc + x\<close> inside \<^verbatim>\<open>sum(...)\<close>: the accumulator starts as the integer 0 and
  stays a number; a \<^verbatim>\<open>bool\<close> counts as 0 or 1; anything else raises TypeError.
\<close>

fun py_add :: "jval \<Rightarrow> jval \<Rightarrow> py_error + jval" where
  "py_add (JInt a) (JInt b) = Inr (JInt (a + b))"
| "py_add (JInt a) (JFloat b) = Inr (JFloat (of_int a + b))"
| "py_add (JInt a) (JBool b) = Inr (JInt (a + (if b then 1 else 0)))"
| "py_add (JFloat a) (JInt b) = Inr (JFloat (a + of_int b))"
| "py_add (JFloat a) (JFloat b) = Inr (JFloat (a + b))"
| "py_add (JFloat a) (JBool b) = Inr (JFloat (a + (if b then 1 else 0)))"
| "py_add _ _ = Inl TypeError"

fun sum_from :: "jval \<Rightarrow> jval list \<Rightarrow> py_error + jval" where
  "sum_from acc [] = Inr acc"
| "sum_from acc (x # xs) =
     (case py_add acc x of Inl e \<Rightarrow> Inl e | Inr acc' \<Rightarrow> sum_from acc' xs)"

definition py_sum :: "jval list \<Rightarrow> py_error + jval" where
  "py_sum xs = sum_from (JInt 0) xs"

text \<open>\<^verbatim>\<open>x / d\<close> for a number \<open>x\<close> and a non-zero integer literal \<open>d\<close>: always a float.\<close>

fun py_truediv :: "jval \<Rightarrow> int \<Rightarrow> py_error + jval" where
  "py_truediv (JInt a) d = Inr (JFloat (of_int a / of_int d))"
| "py_truediv (JBool b) d = Inr (JFloat ((if b then 1 else 0) / of_int d))"
| "py_truediv (JFloat a) d = Inr (JFloat (a / of_int d))"
| "py_truediv _ d = Inl TypeError"

text \<open>\<^verbatim>\<open>str(n)\<close> for an integer, as an f-string formats it.\<close>

definition digit_char :: "nat \<Rightarrow> char" where
  "digit_char d = ''0123456789'' ! d"

fun str_nat :: "nat \<Rightarrow> string" where
  "str_nat n = (if n < 10 then [digit_char n] else str_nat (n div 10) @ [digit_char (n mod 10)])"

declare str_nat.simps [simp del]

definition str_int :: "int \<Rightarrow> string" where
  "str_int i = (if i < 0 then CHR ''-'' # str_nat (nat (- i)) else str_nat (nat i))"

subsection \<open>Configuration\<close>

definition NCM_CODES :: "(string \<times> string) list" where
  "NCM_CODES =
     [(''soybeans'', ''1201''), (''corn'', ''1005''), (''soy_meal'', ''2304''),
      (''soy_oil'', ''1507''), (''wheat'', ''1001'')]"

definition MONTH_NAMES :: "string list" where
  "MONTH_NAMES = [''Jan'', ''Feb'', ''Mar'', ''Apr'', ''May'', ''Jun'',
                  ''Jul'', ''Aug'', ''Sep'', ''Oct'', ''Nov'', ''Dec'']"

text \<open>\<^verbatim>\<open>MONTH_NAMES[i]\<close> for \<open>i \<ge> 0\<close>: IndexError past the end.\<close>

definition month_name :: "nat \<Rightarrow> py_error + string" where
  "month_name i = (if i < length MONTH_NAMES then Inr (MONTH_NAMES ! i) else Inl IndexError)"

subsection \<open>Service state and responses\<close>

record service =
  cache :: "(string \<times> row list) list"
  last_updated :: "(string \<times> datetime) list"
  initialized :: bool

text \<open>The state built by \<^verbatim>\<open>__init__\<close>.\<close>

definition init_service :: service where
  "init_service = \<lparr>cache = [], last_updated = [], initialized = False\<rparr>"

text \<open>
  A response is the dictionary the operation returns; its values are scalars, a
  timestamp, a list of rows, a list of strings or a nested dictionary.
\<close>

datatype field =
  Scalar jval
| Stamp datetime
| Rows "row list"
| Names "string list"
| Dict "(string \<times> field) list"

type_synonym response = "(string \<times> field) list"

text \<open>\<^verbatim>\<open>resp["data"]\<close> and \<^verbatim>\<open>resp["last_updated"]\<close> of a response.\<close>

definition data_of :: "response \<Rightarrow> row list option" where
  "data_of r = (case map_of r ''data'' of Some (Rows rs) \<Rightarrow> Some rs | _ \<Rightarrow> None)"

definition last_updated_of :: "response \<Rightarrow> datetime option" where
  "last_updated_of r = (case map_of r ''last_updated'' of Some (Stamp t) \<Rightarrow> Some t | _ \<Rightarrow> None)"

subsection \<open>Balance sheet\<close>

definition balance_key :: "string \<Rightarrow> string" where
  "balance_key commodity = ''balance_'' @ commodity"

definition bs_row :: "string \<Rightarrow> rat \<Rightarrow> rat \<Rightarrow> rat \<Rightarrow> rat \<Rightarrow> rat \<Rightarrow> rat \<Rightarrow> row" where
  "bs_row y os p i c e es =
     [(''year'', JStr y), (''openingStock'', JFloat os), (''production'', JFloat p),
      (''imports'', JFloat i), (''consumption'', JFloat c), (''exports'', JFloat e),
      (''endingStock'', JFloat es)]"

definition projection :: "row \<Rightarrow> row" where
  "projection r = r @ [(''isProjection'', JBool True)]"

definition balance_sheet_table :: "(string \<times> row list) list" where
  "balance_sheet_table =
   [(''soybeans'',
      [bs_row ''2020/21'' 2.5 135.9 0.4 48.8 86.1 3.9,
       bs_row ''2021/22'' 3.9 125.5 0.3 51.4 78.7 (- 0.4),
       bs_row ''2022/23'' (- 0.4) 154.6 0.2 53.9 98.0 2.5,
       bs_row ''2023/24'' 2.5 147.4 0.3 55.8 92.4 2.0,
       bs_row ''2024/25'' 7.231 171.481 0.969 60.769 108.181 10.731,
       projection (bs_row ''2025/26'' 10.731 176.124 0.500 64.266 111.791 11.298)]),
    (''corn'',
      [bs_row ''2020/21'' 11.2 87.1 3.1 71.5 20.8 9.1,
       bs_row ''2021/22'' 9.1 113.1 1.8 77.0 44.7 2.3,
       bs_row ''2022/23'' 2.3 131.9 1.6 83.0 52.0 0.8,
       bs_row ''2023/24'' 0.8 115.7 1.5 86.5 32.5 (- 1.0),
       bs_row ''2024/25'' (- 1.0) 139.7 1.2 90.5 40.0 9.4,
       projection (bs_row ''2025/26'' 9.4 138.8 1.0 94.5 46.5 8.2)]),
    (''soy_meal'',
      [bs_row ''2024/25'' 3.367 44.044 0.0 19.500 23.300 4.611,
       projection (bs_row ''2025/26'' 4.611 46.620 0.001 20.300 24.696 6.236)]),
    (''soy_oil'',
      [bs_row ''2024/25'' 0.465 11.426 0.105 10.318 1.363 0.316,
       projection (bs_row ''2025/26'' 0.316 12.155 0.100 10.811 1.400 0.360)]),
    (''wheat'',
      [bs_row ''2023/24'' 0.8 8.1 5.5 12.5 0.3 1.6,
       bs_row ''2024/25'' 1.6 7.9 5.8 12.8 0.2 2.3,
       projection (bs_row ''2025/26'' 2.3 8.5 5.5 13.0 0.3 3.0)])]"

definition get_balance_sheet_fallback :: "string \<Rightarrow> row list" where
  "get_balance_sheet_fallback commodity = dict_get balance_sheet_table commodity []"

definition balance_response :: "string \<Rightarrow> datetime \<Rightarrow> row list \<Rightarrow> response" where
  "balance_response commodity stamp rows =
     [(''success'', Scalar (JBool True)), (''commodity'', Scalar (JStr commodity)),
      (''unit'', Scalar (JStr ''MMT'')), (''source'', Scalar (JStr ''CONAB'')),
      (''last_updated'', Stamp stamp), (''data'', Rows rows)]"

text \<open>
  Each operation's returned dictionary is written as a function of the values that
  vary (\<open>balance_response\<close> here, and likewise for the other operations).

  On a miss the response reads \<^verbatim>\<open>self.last_updated[cache_key]\<close> right after storing
  it, so the subscript cannot raise KeyError.
\<close>

definition get_balance_sheet ::
  "string \<Rightarrow> int \<Rightarrow> datetime \<Rightarrow> service \<Rightarrow> response \<times> service" where
  "get_balance_sheet commodity years now s =
     (let cache_key = balance_key commodity in
      case map_of (cache s) cache_key of
        Some cached \<Rightarrow>
          (let data = (if int (length cached) > years then slice_from (- years) cached
                       else cached)
           in (balance_response commodity (dict_get (last_updated s) cache_key now) data, s))
      | None \<Rightarrow>
          (let data = get_balance_sheet_fallback commodity;
               s' = s\<lparr>cache := AList.update cache_key data (cache s),
                      last_updated := AList.update cache_key now (last_updated s)\<rparr>
           in (balance_response commodity (dict_get (last_updated s') cache_key now)
                 (slice_from (- years) data), s')))"

subsection \<open>Monthly exports\<close>

definition exports_key :: "string \<Rightarrow> int \<Rightarrow> string" where
  "exports_key commodity year = ''exports_'' @ commodity @ ''_'' @ str_int year"

definition export_patterns :: "(string \<times> (int \<times> rat list) list) list" where
  "export_patterns =
   [(''soybeans'',
      [(2024, [1.8, 5.2, 12.8, 14.2, 14.8, 13.2, 10.8, 9.2, 7.8, 5.2, 3.6, 2.0]),
       (2025, [2.1, 6.0, 13.5, 15.0, 15.5, 13.8, 11.2, 9.6, 8.2, 5.8, 4.0, 2.2])]),
    (''corn'',
      [(2024, [3.8, 3.2, 1.8, 1.0, 0.6, 0.8, 3.5, 7.5, 8.5, 7.0, 5.5, 4.0]),
       (2025, [4.0, 3.5, 2.0, 1.2, 0.8, 1.0, 4.0, 8.0, 9.0, 7.5, 6.0, 4.5])]),
    (''soy_meal'',
      [(2024, [1.8, 1.9, 2.0, 2.1, 2.0, 1.9, 1.8, 1.9, 2.0, 2.1, 2.0, 1.8]),
       (2025, [1.9, 2.0, 2.1, 2.2, 2.1, 2.0, 1.9, 2.0, 2.1, 2.2, 2.1, 1.9])]),
    (''soy_oil'',
      [(2024, [0.10, 0.11, 0.12, 0.13, 0.12, 0.11, 0.10, 0.11, 0.12, 0.13, 0.12, 0.10]),
       (2025, [0.11, 0.12, 0.13, 0.14, 0.13, 0.12, 0.11, 0.12, 0.13, 0.14, 0.13, 0.11])])]"

text \<open>\<^verbatim>\<open>patterns.get(commodity, {}).get(year, [5.0] * 12)\<close>.\<close>

definition export_volumes :: "string \<Rightarrow> int \<Rightarrow> rat list" where
  "export_volumes commodity year =
     dict_get (dict_get export_patterns commodity []) year (replicate 12 5.0)"

text \<open>
  A loop that appends one row per element and may raise: the first error ends it.
\<close>

fun map_err :: "('a \<Rightarrow> py_error + 'b) \<Rightarrow> 'a list \<Rightarrow> py_error + 'b list" where
  "map_err f [] = Inr []"
| "map_err f (x # xs) =
     (case f x of
        Inl e \<Rightarrow> Inl e
      | Inr y \<Rightarrow> (case map_err f xs of Inl e \<Rightarrow> Inl e | Inr ys \<Rightarrow> Inr (y # ys)))"

text \<open>The body of the loop of \<^verbatim>\<open>_get_monthly_exports_fallback\<close>.\<close>

definition export_row ::
  "string \<Rightarrow> int \<Rightarrow> datetime \<Rightarrow> rat \<Rightarrow> nat \<Rightarrow> nat \<times> rat \<Rightarrow> py_error + row" where
  "export_row commodity year now china_share current_month iv =
     (let month_idx = fst iv;
          month = month_idx + 1;
          is_partial = (year = int (dt_year now) \<and> month = current_month);
          vol = (if is_partial then snd iv * (of_nat (dt_day now) / 30) else snd iv);
          has_china = (commodity \<in> set [''soybeans'', ''soy_meal''])
      in case month_name month_idx of
           Inl e \<Rightarrow> Inl e
         | Inr name \<Rightarrow> Inr
             [(''year'', JInt year),
              (''month'', JInt (int month)),
              (''monthName'', JStr name),
              (''volumeMt'', JFloat (vol * 1000000)),
              (''volumeMmt'', JFloat (round_dec 2 vol)),
              (''valueUsd'', JFloat (vol * 420000000)),
              (''toChinaMt'', if has_china then JFloat (vol * 1000000 * china_share) else JNone),
              (''toChinaPct'', if has_china then JFloat (china_share * 100) else JNone),
              (''isPartial'', JBool is_partial)])"

definition get_monthly_exports_fallback ::
  "string \<Rightarrow> int \<Rightarrow> datetime \<Rightarrow> py_error + row list" where
  "get_monthly_exports_fallback commodity year now =
     (let volumes = export_volumes commodity year;
          china_share = (if commodity = ''soybeans'' then 0.77 else 0.02);
          current_month = (if year = int (dt_year now) then dt_month now else 12)
      in map_err (export_row commodity year now china_share current_month)
           (List.enumerate 0 volumes))"

text \<open>The dictionary that \<^verbatim>\<open>get_monthly_exports\<close> returns.\<close>

definition exports_response ::
  "string \<Rightarrow> int \<Rightarrow> datetime \<Rightarrow> row list \<Rightarrow> jval \<Rightarrow> jval \<Rightarrow> response" where
  "exports_response commodity year stamp data ytd_total_mmt ytd_to_china_mmt =
     [(''success'', Scalar (JBool True)),
      (''commodity'', Scalar (JStr commodity)),
      (''ncmCode'', Scalar (JStr (dict_get NCM_CODES commodity []))),
      (''year'', Scalar (JInt year)),
      (''source'', Scalar (JStr ''SECEX/MDIC ComexStat'')),
      (''last_updated'', Stamp stamp),
      (''data'', Rows data),
      (''ytdTotalMmt'', Scalar ytd_total_mmt),
      (''ytdToChinaMmt'', Scalar ytd_to_china_mmt)]"

text \<open>
  \<^verbatim>\<open>get_monthly_exports\<close>. The sums run over the rows just fetched; an exception
  leaves the cache as it is at that point.
\<close>

definition get_monthly_exports ::
  "string \<Rightarrow> int \<Rightarrow> bool \<Rightarrow> datetime \<Rightarrow> service \<Rightarrow> (py_error + response) \<times> service" where
  "get_monthly_exports commodity year include_china now s =
     (let cache_key = exports_key commodity year in
      case (case map_of (cache s) cache_key of
              Some cached \<Rightarrow> Inr (cached, s)
            | None \<Rightarrow>
                (case get_monthly_exports_fallback commodity year now of
                   Inl e \<Rightarrow> Inl e
                 | Inr fresh \<Rightarrow>
                     Inr (fresh, s\<lparr>cache := AList.update cache_key fresh (cache s),
                                   last_updated := AList.update cache_key now (last_updated s)\<rparr>)))
      of
        Inl e \<Rightarrow> (Inl e, s)
      | Inr (data, s') \<Rightarrow>
         (case py_sum (map (\<lambda>row. dict_get row ''volumeMmt'' (JInt 0)) data) of
            Inl e \<Rightarrow> (Inl e, s')
          | Inr ytd_total \<Rightarrow>
             (case (if include_china
                    then (case py_sum (map (\<lambda>row. let v = dict_get row ''toChinaMt'' (JInt 0)
                                                  in if truthy v then v else JInt 0) data) of
                            Inl e \<Rightarrow> Inl e
                          | Inr china_sum \<Rightarrow> py_truediv china_sum 1000000)
                    else Inr JNone) of
                Inl e \<Rightarrow> (Inl e, s')
              | Inr ytd_china \<Rightarrow>
                 (case py_round ytd_total 2 of
                    Inl e \<Rightarrow> (Inl e, s')
                  | Inr total_rounded \<Rightarrow>
                     (case (if truthy ytd_china then py_round ytd_china 2 else Inr JNone) of
                        Inl e \<Rightarrow> (Inl e, s')
                      | Inr china_rounded \<Rightarrow>
                         (Inr (exports_response commodity year
                                 (dict_get (last_updated s') cache_key now) data
                                 total_rounded china_rounded), s'))))))"

subsection \<open>Exports by destination and by port\<close>

text \<open>\<^verbatim>\<open>d[k]\<close>: KeyError when the key is missing.\<close>

definition item :: "('k \<times> 'v) list \<Rightarrow> 'k \<Rightarrow> py_error + 'v" where
  "item d k = (case map_of d k of None \<Rightarrow> Inl KeyError | Some v \<Rightarrow> Inr v)"

text \<open>\<^verbatim>\<open>x * n\<close> for an integer literal \<open>n\<close>.\<close>

fun py_mul :: "jval \<Rightarrow> int \<Rightarrow> py_error + jval" where
  "py_mul (JInt a) n = Inr (JInt (a * n))"
| "py_mul (JBool b) n = Inr (JInt ((if b then 1 else 0) * n))"
| "py_mul (JFloat a) n = Inr (JFloat (a * of_int n))"
| "py_mul (JStr s) n = Inr (JStr (concat (replicate (nat n) s)))"
| "py_mul JNone n = Inl TypeError"

definition dest_row :: "string \<Rightarrow> string \<Rightarrow> rat \<Rightarrow> rat \<Rightarrow> row" where
  "dest_row code name share vol =
     [(''countryCode'', JStr code), (''countryName'', JStr name),
      (''sharePct'', JFloat share), (''volumeMmt'', JFloat vol)]"

definition destinations_table :: "row list" where
  "destinations_table =
     [dest_row ''160'' ''China'' 76.5 82.5,
      dest_row ''270'' ''Spain'' 3.8 4.1,
      dest_row ''764'' ''Thailand'' 2.9 3.1,
      dest_row ''573'' ''Netherlands'' 2.0 2.2,
      dest_row ''792'' ''Turkey'' 1.9 2.0,
      dest_row ''399'' ''Japan'' 1.5 1.6,
      dest_row ''364'' ''Iran'' 1.4 1.5,
      dest_row ''220'' ''Egypt'' 1.1 1.2,
      dest_row ''586'' ''Pakistan'' 1.0 1.1,
      dest_row ''000'' ''Others'' 7.9 8.5]"

text \<open>The loop that adds the calculated fields to one destination.\<close>

definition add_calculated :: "row \<Rightarrow> py_error + row" where
  "add_calculated d =
     (case item d ''volumeMmt'' of
        Inl e \<Rightarrow> Inl e
      | Inr v \<Rightarrow>
         (case py_mul v 1000000 of
            Inl e \<Rightarrow> Inl e
          | Inr mt \<Rightarrow>
             (let d1 = AList.update ''volumeMt'' mt d in
              case item d1 ''volumeMmt'' of
                Inl e \<Rightarrow> Inl e
              | Inr v1 \<Rightarrow>
                 (case py_mul v1 420000000 of
                    Inl e \<Rightarrow> Inl e
                  | Inr usd \<Rightarrow> Inr (AList.update ''valueUsd'' usd d1)))))"

definition destinations_response ::
  "string \<Rightarrow> int \<Rightarrow> datetime \<Rightarrow> jval \<Rightarrow> row list \<Rightarrow> response" where
  "destinations_response commodity year stamp total_mmt data =
     [(''success'', Scalar (JBool True)),
      (''commodity'', Scalar (JStr commodity)),
      (''year'', Scalar (JInt year)),
      (''source'', Scalar (JStr ''SECEX/MDIC ComexStat'')),
      (''last_updated'', Stamp stamp),
      (''totalMmt'', Scalar total_mmt),
      (''data'', Rows data)]"

definition get_exports_by_destination ::
  "string \<Rightarrow> int \<Rightarrow> int \<Rightarrow> datetime \<Rightarrow> py_error + response" where
  "get_exports_by_destination commodity year top_n now =
     (case map_err add_calculated destinations_table of
        Inl e \<Rightarrow> Inl e
      | Inr destinations \<Rightarrow>
         (case map_err (\<lambda>d. item d ''volumeMmt'') destinations of
            Inl e \<Rightarrow> Inl e
          | Inr vols \<Rightarrow>
             (case py_sum vols of
                Inl e \<Rightarrow> Inl e
              | Inr total_mmt \<Rightarrow>
                 (case py_round total_mmt 1 of
                    Inl e \<Rightarrow> Inl e
                  | Inr total_rounded \<Rightarrow>
                      Inr (destinations_response commodity year now total_rounded
                             (slice_to top_n destinations))))))"

definition port_row :: "string \<Rightarrow> string \<Rightarrow> rat \<Rightarrow> rat \<Rightarrow> row" where
  "port_row name st vol share =
     [(''portName'', JStr name), (''state'', JStr st),
      (''volumeMmt'', JFloat vol), (''sharePct'', JFloat share)]"

text \<open>Port names outside ASCII are written as their UTF-8 bytes.\<close>

definition ports_table :: "row list" where
  "ports_table =
     [port_row ''Santos'' ''SP'' 34.5 32.0,
      port_row (''Paranagu'' @ [CHR 0xC3, CHR 0xA1]) ''PR'' 19.4 18.0,
      port_row ''Rio Grande'' ''RS'' 15.1 14.0,
      port_row (''S'' @ [CHR 0xC3, CHR 0xA3] @ ''o Lu'' @ [CHR 0xC3, CHR 0xAD] @ ''s'') ''MA'' 12.9 12.0,
      port_row ''Barcarena'' ''PA'' 9.7 9.0,
      port_row (''S'' @ [CHR 0xC3, CHR 0xA3] @ ''o Francisco do Sul'') ''SC'' 7.5 7.0,
      port_row ''Others'' ''-'' 8.6 8.0]"

definition ports_response :: "string \<Rightarrow> int \<Rightarrow> datetime \<Rightarrow> row list \<Rightarrow> response" where
  "ports_response commodity year stamp data =
     [(''success'', Scalar (JBool True)),
      (''commodity'', Scalar (JStr commodity)),
      (''year'', Scalar (JInt year)),
      (''source'', Scalar (JStr ''SECEX/MDIC ComexStat'')),
      (''last_updated'', Stamp stamp),
      (''data'', Rows data)]"

definition get_exports_by_port :: "string \<Rightarrow> int \<Rightarrow> datetime \<Rightarrow> response" where
  "get_exports_by_port commodity year now = ports_response commodity year now ports_table"

subsection \<open>Production\<close>

definition prod_row :: "string \<Rightarrow> rat \<Rightarrow> rat \<Rightarrow> rat \<Rightarrow> row" where
  "prod_row cy area pr yld =
     [(''cropYear'', JStr cy), (''areaMha'', JFloat area),
      (''productionMmt'', JFloat pr), (''yieldMtHa'', JFloat yld)]"

definition production_table :: "(string \<times> row list) list" where
  "production_table =
   [(''soybeans'',
      [prod_row ''2015/16'' 33.3 95.4 2.87,
       prod_row ''2016/17'' 33.9 114.1 3.36,
       prod_row ''2017/18'' 35.1 119.3 3.40,
       prod_row ''2018/19'' 35.9 115.0 3.21,
       prod_row ''2019/20'' 36.9 124.8 3.38,
       prod_row ''2020/21'' 38.5 135.9 3.53,
       prod_row ''2021/22'' 41.0 125.5 3.06,
       prod_row ''2022/23'' 43.2 154.6 3.58,
       prod_row ''2023/24'' 45.1 147.4 3.27,
       prod_row ''2024/25'' 47.4 171.5 3.62,
       projection (prod_row ''2025/26'' 48.9 176.1 3.60)]),
    (''corn'',
      [prod_row ''2015/16'' 15.9 64.1 4.03,
       prod_row ''2016/17'' 17.6 97.8 5.56,
       prod_row ''2017/18'' 16.6 80.7 4.86,
       prod_row ''2018/19'' 17.5 100.0 5.71,
       prod_row ''2019/20'' 18.5 102.5 5.54,
       prod_row ''2020/21'' 19.8 87.1 4.40,
       prod_row ''2021/22'' 21.4 113.1 5.29,
       prod_row ''2022/23'' 22.0 131.9 5.99,
       prod_row ''2023/24'' 20.7 115.7 5.59,
       prod_row ''2024/25'' 22.2 139.7 6.29,
       projection (prod_row ''2025/26'' 22.7 138.8 6.12)])]"

definition get_production_fallback :: "string \<Rightarrow> row list" where
  "get_production_fallback commodity = dict_get production_table commodity []"

definition production_response :: "string \<Rightarrow> datetime \<Rightarrow> row list \<Rightarrow> response" where
  "production_response commodity stamp data =
     [(''success'', Scalar (JBool True)),
      (''commodity'', Scalar (JStr commodity)),
      (''source'', Scalar (JStr ''CONAB SerieHistoricaGraos'')),
      (''last_updated'', Stamp stamp),
      (''data'', Rows data)]"

text \<open>The parameter \<open>state\<close> is the optional \<^verbatim>\<open>state\<close> argument of the source.\<close>

definition get_production ::
  "string \<Rightarrow> int \<Rightarrow> string option \<Rightarrow> datetime \<Rightarrow> response" where
  "get_production commodity years state now =
     (let data = get_production_fallback commodity
      in production_response commodity now (slice_from (- years) data))"

subsection \<open>Monthly prices\<close>

definition price_table :: "(string \<times> (string \<times> int list) list) list" where
  "price_table =
   [(''soybeans'',
      [(''MT'', [130, 126, 119, 115, 113, 111, 108, 113, 119, 125, 131, 133]),
       (''PR'', [140, 136, 129, 125, 123, 121, 118, 123, 129, 135, 141, 143]),
       (''Paranagu'' @ [CHR 0xC3, CHR 0xA1],
          [150, 146, 139, 135, 133, 131, 128, 133, 139, 145, 151, 153])]),
    (''corn'',
      [(''MT'', [58, 56, 50, 49, 46, 45, 43, 46, 48, 53, 57, 59]),
       (''PR'', [68, 65, 59, 58, 55, 54, 52, 55, 57, 62, 66, 68])]),
    (''wheat'',
      [(''PR'', [88, 85, 82, 80, 78, 77, 79, 82, 85, 88, 91, 93])])]"

text \<open>
  The body of the inner loop of \<^verbatim>\<open>_get_prices_fallback\<close>. The index
  \<open>month_idx - 1\<close> is read only for \<open>month_idx > 0\<close>, where it is in range.
\<close>

definition price_row :: "int \<Rightarrow> string \<Rightarrow> int list \<Rightarrow> nat \<times> int \<Rightarrow> py_error + row" where
  "price_row year loc loc_prices ip =
     (let month_idx = fst ip;
          price = snd ip;
          prev_price = (if month_idx > 0 then loc_prices ! (month_idx - 1) else price);
          mom_change = (if prev_price \<noteq> 0
                        then JFloat (of_int (price - prev_price) / of_int prev_price * 100)
                        else JInt 0)
      in case month_name month_idx of
           Inl e \<Rightarrow> Inl e
         | Inr name \<Rightarrow>
            (case py_round mom_change 1 of
               Inl e \<Rightarrow> Inl e
             | Inr mom_rounded \<Rightarrow> Inr
                 [(''year'', JInt year),
                  (''month'', JInt (int month_idx + 1)),
                  (''monthName'', JStr name),
                  (''location'', JStr loc),
                  (''priceBrl'', JInt price),
                  (''priceUsd'', JFloat (round_dec 2 (of_int price / 6))),
                  (''momChangePct'', mom_rounded)]))"

definition location_rows ::
  "int \<Rightarrow> (string \<times> int list) list \<Rightarrow> string \<Rightarrow> py_error + row list" where
  "location_rows year commodity_prices loc =
     (let loc_prices = dict_get commodity_prices loc (replicate 12 100)
      in map_err (price_row year loc loc_prices) (List.enumerate 0 loc_prices))"

definition get_prices_fallback ::
  "string \<Rightarrow> int \<Rightarrow> string option \<Rightarrow> py_error + row list" where
  "get_prices_fallback commodity year location =
     (let commodity_prices = dict_get price_table commodity [];
          locations_to_use =
            (case location of
               Some l \<Rightarrow> if l \<noteq> [] then [l] else dict_keys commodity_prices
             | None \<Rightarrow> dict_keys commodity_prices)
      in case map_err (location_rows year commodity_prices) locations_to_use of
           Inl e \<Rightarrow> Inl e
         | Inr per_location \<Rightarrow> Inr (concat per_location))"

definition prices_response :: "string \<Rightarrow> datetime \<Rightarrow> row list \<Rightarrow> response" where
  "prices_response commodity stamp data =
     [(''success'', Scalar (JBool True)),
      (''commodity'', Scalar (JStr commodity)),
      (''unit'', Scalar (JStr ''BRL/60kg bag'')),
      (''source'', Scalar (JStr ''CONAB PrecosMensalUF'')),
      (''last_updated'', Stamp stamp),
      (''data'', Rows data)]"

definition get_monthly_prices ::
  "string \<Rightarrow> int \<Rightarrow> string option \<Rightarrow> datetime \<Rightarrow> py_error + response" where
  "get_monthly_prices commodity year location now =
     (case get_prices_fallback commodity year location of
        Inl e \<Rightarrow> Inl e
      | Inr data \<Rightarrow> Inr (prices_response commodity now data))"

subsection \<open>Soy complex\<close>

definition complex_row :: "string \<Rightarrow> rat \<Rightarrow> rat \<Rightarrow> rat \<Rightarrow> rat \<Rightarrow> rat \<Rightarrow> rat \<Rightarrow> rat \<Rightarrow> row" where
  "complex_row safra ei pr im su co ex ef =
     [(''safra'', JStr safra), (''estoque_inicial'', JFloat ei), (''producao'', JFloat pr),
      (''importacao'', JFloat im), (''suprimento'', JFloat su), (''consumo'', JFloat co),
      (''exportacao'', JFloat ex), (''estoque_final'', JFloat ef)]"

definition complex_response ::
  "datetime \<Rightarrow> row list \<Rightarrow> row list \<Rightarrow> row list \<Rightarrow> response" where
  "complex_response stamp soja_graos farelo oleo =
     [(''success'', Scalar (JBool True)),
      (''source'', Scalar (JStr ''CONAB e Secex'')),
      (''note'', Scalar (JStr
         ''Estimativa em janeiro/2026. Estoque de passagem 31 de dezembro.'')),
      (''unit'', Scalar (JStr ''mil t (thousand metric tons)'')),
      (''last_updated'', Stamp stamp),
      (''soja_graos'', Rows soja_graos),
      (''farelo'', Rows farelo),
      (''oleo'', Rows oleo)]"

definition get_soy_complex_balance :: "datetime \<Rightarrow> response" where
  "get_soy_complex_balance now =
     (let soja_graos =
            [complex_row ''2024/25'' 7231.3 171480.5 968.6 179680.4 60768.8 108181.1 10730.6,
             complex_row ''2025/26'' 10730.6 176124.4 500.0 187355.0 64265.9 111790.8 11298.2];
          farelo =
            [complex_row ''2024/25'' 3367.3 44043.9 0.1 47411.3 19500.0 23300.4 4610.9,
             complex_row ''2025/26'' 4610.9 46620.3 1.0 51232.3 20300.0 24696.0 6236.3];
          oleo =
            [complex_row ''2024/25'' 465.2 11426.0 105.2 11996.5 10318.0 1362.9 315.6,
             complex_row ''2025/26'' 315.6 12155.3 100.0 12570.9 10811.0 1400.0 359.9]
      in complex_response now soja_graos farelo oleo)"

subsection \<open>Dashboard summary\<close>

definition and_then :: "py_error + 'a \<Rightarrow> ('a \<Rightarrow> py_error + 'b) \<Rightarrow> py_error + 'b" where
  "and_then r f = (case r of Inl e \<Rightarrow> Inl e | Inr x \<Rightarrow> f x)"

definition survey_row :: "int \<Rightarrow> string \<Rightarrow> rat \<Rightarrow> rat \<Rightarrow> rat \<Rightarrow> row" where
  "survey_row n m soy corn tot =
     [(''survey'', JInt n), (''month'', JStr m), (''soybeans'', JFloat soy),
      (''corn'', JFloat corn), (''total'', JFloat tot)]"

definition survey_data :: "(string \<times> field) list" where
  "survey_data =
     [(''2025/26'', Rows
        [survey_row 1 ''Oct 2025'' 177.6 138.6 354.7,
         survey_row 2 ''Nov 2025'' 177.6 138.8 355.1,
         survey_row 3 ''Dec 2025'' 177.1 138.8 354.5,
         survey_row 4 ''Jan 2026'' 176.1 138.8 354.0 @ [(''isCurrent'', JBool True)]])]"

text \<open>
  The dictionary that \<^verbatim>\<open>get_dashboard_summary\<close> returns, from the fifteen
  responses it fetched; each \<^verbatim>\<open>resp["data"]\<close> is a subscript.
\<close>

definition dashboard_bundle ::
  "datetime \<Rightarrow> response \<Rightarrow> response \<Rightarrow> response \<Rightarrow> response \<Rightarrow> response \<Rightarrow> response \<Rightarrow>
   response \<Rightarrow> response \<Rightarrow> response \<Rightarrow> response \<Rightarrow> response \<Rightarrow> response \<Rightarrow>
   response \<Rightarrow> response \<Rightarrow> response \<Rightarrow> py_error + response" where
  "dashboard_bundle now soy_balance corn_balance soy_exports_2024 soy_exports_2025
     corn_exports_2024 corn_exports_2025 soy_production corn_production
     soy_prices_2024 soy_prices_2025 corn_prices_2024 corn_prices_2025
     export_destinations export_ports soy_complex =
   and_then (item soy_production ''data'') (\<lambda>p_soy.
   and_then (item corn_production ''data'') (\<lambda>p_corn.
   and_then (item soy_balance ''data'') (\<lambda>b_soy.
   and_then (item corn_balance ''data'') (\<lambda>b_corn.
   and_then (item soy_exports_2024 ''data'') (\<lambda>e_soy_2024.
   and_then (item soy_exports_2025 ''data'') (\<lambda>e_soy_2025.
   and_then (item corn_exports_2024 ''data'') (\<lambda>e_corn_2024.
   and_then (item corn_exports_2025 ''data'') (\<lambda>e_corn_2025.
   and_then (item soy_prices_2024 ''data'') (\<lambda>m_soy_2024.
   and_then (item soy_prices_2025 ''data'') (\<lambda>m_soy_2025.
   and_then (item corn_prices_2024 ''data'') (\<lambda>m_corn_2024.
   and_then (item corn_prices_2025 ''data'') (\<lambda>m_corn_2025.
   and_then (item export_destinations ''data'') (\<lambda>dests.
   and_then (item export_ports ''data'') (\<lambda>ports.
   and_then (item soy_complex ''soja_graos'') (\<lambda>soja_graos.
   and_then (item soy_complex ''farelo'') (\<lambda>farelo.
   and_then (item soy_complex ''oleo'') (\<lambda>oleo.
     Inr [(''success'', Scalar (JBool True)),
          (''last_updated'', Stamp now),
          (''data_sources'', Names [''CONAB'', ''SECEX/MDIC ComexStat'']),
          (''production'', Dict [(''soybeans'', p_soy), (''corn'', p_corn)]),
          (''balance_sheets'', Dict [(''soybeans'', b_soy), (''corn'', b_corn)]),
          (''monthly_exports'', Dict
             [(''soybeans'', Dict [(''2024'', e_soy_2024), (''2025'', e_soy_2025)]),
              (''corn'', Dict [(''2024'', e_corn_2024), (''2025'', e_corn_2025)])]),
          (''monthly_prices'', Dict
             [(''soybeans'', Dict [(''2024'', m_soy_2024), (''2025'', m_soy_2025)]),
              (''corn'', Dict [(''2024'', m_corn_2024), (''2025'', m_corn_2025)])]),
          (''export_destinations'', Dict [(''soybeans'', dests)]),
          (''export_ports'', ports),
          (''soy_complex'', Dict [(''soja_graos'', soja_graos), (''farelo'', farelo),
                                 (''oleo'', oleo)]),
          (''survey_data'', Dict survey_data)])))))))))))))))))"

text \<open>
  \<^verbatim>\<open>get_dashboard_summary\<close>: the fetches in the order of the source, the state
  threaded through those that use the cache. \<open>clk i\<close> is the clock reading of the
  \<open>i\<close>-th fetch; \<open>clk 15\<close> the one of the bundle. An exception ends the call with
  the state reached so far.
\<close>

definition get_dashboard_summary ::
  "(nat \<Rightarrow> datetime) \<Rightarrow> service \<Rightarrow> (py_error + response) \<times> service" where
  "get_dashboard_summary clk s0 =
     (let (soy_balance, s1) = get_balance_sheet ''soybeans'' 6 (clk 0) s0;
          (corn_balance, s2) = get_balance_sheet ''corn'' 6 (clk 1) s1;
          (r3, s3) = get_monthly_exports ''soybeans'' 2024 True (clk 2) s2
      in case r3 of Inl e \<Rightarrow> (Inl e, s3) | Inr soy_exports_2024 \<Rightarrow>
     (let (r4, s4) = get_monthly_exports ''soybeans'' 2025 True (clk 3) s3
      in case r4 of Inl e \<Rightarrow> (Inl e, s4) | Inr soy_exports_2025 \<Rightarrow>
     (let (r5, s5) = get_monthly_exports ''corn'' 2024 True (clk 4) s4
      in case r5 of Inl e \<Rightarrow> (Inl e, s5) | Inr corn_exports_2024 \<Rightarrow>
     (let (r6, s6) = get_monthly_exports ''corn'' 2025 True (clk 5) s5
      in case r6 of Inl e \<Rightarrow> (Inl e, s6) | Inr corn_exports_2025 \<Rightarrow>
     (let soy_production = get_production ''soybeans'' 11 None (clk 6);
          corn_production = get_production ''corn'' 11 None (clk 7)
      in (and_then (get_monthly_prices ''soybeans'' 2024 None (clk 8)) (\<lambda>soy_prices_2024.
          and_then (get_monthly_prices ''soybeans'' 2025 None (clk 9)) (\<lambda>soy_prices_2025.
          and_then (get_monthly_prices ''corn'' 2024 None (clk 10)) (\<lambda>corn_prices_2024.
          and_then (get_monthly_prices ''corn'' 2025 None (clk 11)) (\<lambda>corn_prices_2025.
          and_then (get_exports_by_destination ''soybeans'' 2025 10 (clk 12))
            (\<lambda>export_destinations.
          (let export_ports = get_exports_by_port ''soybeans'' 2025 (clk 13);
               soy_complex = get_soy_complex_balance (clk 14)
           in dashboard_bundle (clk 15) soy_balance corn_balance soy_exports_2024
                soy_exports_2025 corn_exports_2024 corn_exports_2025 soy_production
                corn_production soy_prices_2024 soy_prices_2025 corn_prices_2024
                corn_prices_2025 export_destinations export_ports soy_complex)))))),
          s6))))))"

subsection \<open>Status and persistence\<close>

text \<open>
  \<^verbatim>\<open>datetime.isoformat()\<close> of a naive timestamp:
  \<^verbatim>\<open>YYYY-MM-DDTHH:MM:SS\<close>, followed by \<^verbatim>\<open>.ffffff\<close> when the microsecond is not 0.
\<close>

definition zpad :: "nat \<Rightarrow> nat \<Rightarrow> string" where
  "zpad w n = replicate (w - length (str_nat n)) (CHR ''0'') @ str_nat n"

definition isoformat :: "datetime \<Rightarrow> string" where
  "isoformat t =
     zpad 4 (dt_year t) @ ''-'' @ zpad 2 (dt_month t) @ ''-'' @ zpad 2 (dt_day t) @ ''T'' @
     zpad 2 (dt_hour t) @ '':'' @ zpad 2 (dt_minute t) @ '':'' @ zpad 2 (dt_second t) @
     (if dt_microsecond t = 0 then [] else ''.'' @ zpad 6 (dt_microsecond t))"

record status =
  st_initialized :: bool
  st_cache_keys :: "string list"
  st_last_updated :: "(string \<times> string) list"

definition get_status :: "service \<Rightarrow> status" where
  "get_status s =
     \<lparr>st_initialized = initialized s,
      st_cache_keys = dict_keys (cache s),
      st_last_updated = map (\<lambda>(k, v). (k, isoformat v)) (last_updated s)\<rparr>"

text \<open>
  The cache file: absent, unreadable (anything \<^verbatim>\<open>json.load\<close> or the two
  \<^verbatim>\<open>.get\<close> calls fail on), or a JSON document with the optional fields
  \<^verbatim>\<open>cache\<close> and \<^verbatim>\<open>last_updated\<close>. \<^verbatim>\<open>json.dump\<close> followed by \<^verbatim>\<open>json.load\<close> gives the
  document back. \<open>writable\<close> tells whether opening the file for writing succeeds.
\<close>

datatype file_content =
  Missing
| Unreadable
| Document "(string \<times> row list) list option" "(string \<times> string) list option"

record disk =
  content :: file_content
  writable :: bool

definition save_cache_to_disk :: "service \<Rightarrow> disk \<Rightarrow> disk" where
  "save_cache_to_disk s d =
     (if writable d
      then d\<lparr>content := Document (Some (cache s))
                (Some (map (\<lambda>(k, v). (k, isoformat v)) (last_updated s)))\<rparr>
      else d)"

text \<open>
  The loop over the stored timestamps. \<^verbatim>\<open>datetime.fromisoformat\<close> is the parameter
  \<open>fromisoformat\<close>; when it raises, the \<^verbatim>\<open>except\<close> clause ends the loop and the
  entries converted so far stay.
\<close>

fun load_stamps ::
  "(string \<Rightarrow> py_error + datetime) \<Rightarrow> (string \<times> string) list \<Rightarrow>
   (string \<times> datetime) list \<Rightarrow> (string \<times> datetime) list" where
  "load_stamps fromisoformat [] lu = lu"
| "load_stamps fromisoformat ((key, val) # rest) lu =
     (case fromisoformat val of
        Inl e \<Rightarrow> lu
      | Inr t \<Rightarrow> load_stamps fromisoformat rest (AList.update key t lu))"

definition load_cache_from_disk ::
  "(string \<Rightarrow> py_error + datetime) \<Rightarrow> disk \<Rightarrow> service \<Rightarrow> service" where
  "load_cache_from_disk fromisoformat d s =
     (case content d of
        Missing \<Rightarrow> s
      | Unreadable \<Rightarrow> s
      | Document c lu \<Rightarrow>
          s\<lparr>cache := (case c of None \<Rightarrow> [] | Some c' \<Rightarrow> c'),
            last_updated :=
              load_stamps fromisoformat (case lu of None \<Rightarrow> [] | Some lu' \<Rightarrow> lu')
                (last_updated s)\<rparr>)"

definition initialize ::
  "(string \<Rightarrow> py_error + datetime) \<Rightarrow> disk \<Rightarrow> service \<Rightarrow> service" where
  "initialize fromisoformat d s = (load_cache_from_disk fromisoformat d s)\<lparr>initialized := True\<rparr>"

definition cleanup :: "service \<Rightarrow> disk \<Rightarrow> disk" where
  "cleanup s d = save_cache_to_disk s d"

text \<open>
  \<^verbatim>\<open>refresh_all\<close>: clear the cache, fetch the dashboard, save. When the dashboard
  raises, the save is not reached.
\<close>

definition refresh_all ::
  "(nat \<Rightarrow> datetime) \<Rightarrow> disk \<Rightarrow> service \<Rightarrow> (py_error + unit) \<times> service \<times> disk" where
  "refresh_all clk d s =
     (let (r, s') = get_dashboard_summary clk (s\<lparr>cache := []\<rparr>)
      in case r of
           Inl e \<Rightarrow> (Inl e, s', d)
         | Inr summary \<Rightarrow> (Inr (), s', save_cache_to_disk s' d))"

text \<open>
  A parser for the two layouts that \<open>isoformat\<close> emits, with the range checks of the
  \<^verbatim>\<open>datetime\<close> constructor; any other string is a ValueError here. It is one
  instance of the parameter \<open>fromisoformat\<close> of \<open>load_cache_from_disk\<close>.
\<close>

definition digit_val :: "char \<Rightarrow> nat option" where
  "digit_val c =
     (if c \<in> set ''0123456789'' then Some (of_char c - 48) else None)"

fun parse_nat_from :: "nat \<Rightarrow> string \<Rightarrow> nat option" where
  "parse_nat_from acc [] = Some acc"
| "parse_nat_from acc (c # cs) =
     (case digit_val c of None \<Rightarrow> None | Some v \<Rightarrow> parse_nat_from (acc * 10 + v) cs)"

definition parse_digits :: "string \<Rightarrow> nat option" where
  "parse_digits s = (if s = [] then None else parse_nat_from 0 s)"

definition is_leap :: "nat \<Rightarrow> bool" where
  "is_leap y = (y mod 4 = 0 \<and> (y mod 100 \<noteq> 0 \<or> y mod 400 = 0))"

definition days_in_month :: "nat \<Rightarrow> nat \<Rightarrow> nat" where
  "days_in_month y m =
     (if m = 2 then (if is_leap y then 29 else 28)
      else if m \<in> set [4, 6, 9, 11] then 30 else 31)"

definition valid_datetime :: "datetime \<Rightarrow> bool" where
  "valid_datetime t =
     (1 \<le> dt_year t \<and> dt_year t \<le> 9999 \<and> 1 \<le> dt_month t \<and> dt_month t \<le> 12 \<and>
      1 \<le> dt_day t \<and> dt_day t \<le> days_in_month (dt_year t) (dt_month t) \<and>
      dt_hour t < 24 \<and> dt_minute t < 60 \<and> dt_second t < 60 \<and>
      dt_microsecond t < 1000000)"

definition fromisoformat_naive :: "string \<Rightarrow> py_error + datetime" where
  "fromisoformat_naive s =
     (let n = length s in
      if (n = 19 \<or> n = 26 \<and> s ! 19 = CHR ''.'') \<and>
         s ! 4 = CHR ''-'' \<and> s ! 7 = CHR ''-'' \<and> s ! 10 = CHR ''T'' \<and>
         s ! 13 = CHR '':'' \<and> s ! 16 = CHR '':''
      then
        (case (parse_digits (take 4 s), parse_digits (take 2 (drop 5 s)),
               parse_digits (take 2 (drop 8 s)), parse_digits (take 2 (drop 11 s)),
               parse_digits (take 2 (drop 14 s)), parse_digits (take 2 (drop 17 s)),
               if n = 26 then parse_digits (drop 20 s) else Some 0) of
           (Some y, Some mo, Some d, Some h, Some mi, Some se, Some us) \<Rightarrow>
             (let t = \<lparr>dt_year = y, dt_month = mo, dt_day = d, dt_hour = h, dt_minute = mi,
                        dt_second = se, dt_microsecond = us\<rparr>
              in if valid_datetime t then Inr t else Inl ValueError)
         | _ \<Rightarrow> Inl ValueError)
      else Inl ValueError)"

subsection \<open>Notions used in the statements\<close>

text \<open>
  The series the service holds for a commodity's balance sheet: the cached list when
  the key is in the cache, the built-in table otherwise.
\<close>

definition stored_series :: "service \<Rightarrow> string \<Rightarrow> row list" where
  "stored_series s commodity =
     (case map_of (cache s) (balance_key commodity) of
        Some cached \<Rightarrow> cached
      | None \<Rightarrow> get_balance_sheet_fallback commodity)"

text \<open>
  The crop-year label of a balance-sheet row. Labels such as \<open>2024/25\<close> are compared
  as strings, character by character.
\<close>

definition year_label :: "row \<Rightarrow> string" where
  "year_label r = (case map_of r ''year'' of Some (JStr y) \<Rightarrow> y | _ \<Rightarrow> [])"

text \<open>
  The locations a price query covers, and the price series of one location: the
  values of \<^verbatim>\<open>locations_to_use\<close> and \<^verbatim>\<open>loc_prices\<close> in \<^verbatim>\<open>_get_prices_fallback\<close>.
\<close>

definition price_locations :: "string \<Rightarrow> string option \<Rightarrow> string list" where
  "price_locations commodity location =
     (case location of
        Some l \<Rightarrow> if l \<noteq> [] then [l] else dict_keys (dict_get price_table commodity [])
      | None \<Rightarrow> dict_keys (dict_get price_table commodity []))"

definition price_series :: "string \<Rightarrow> string \<Rightarrow> int list" where
  "price_series commodity loc =
     dict_get (dict_get price_table commodity []) loc (replicate 12 100)"

text \<open>
  The numeric value of a scalar (0 for \<^verbatim>\<open>None\<close>), and the sum of one field over a list of
  rows, a missing field counting 0: the sums the year-to-date totals are stated with.
\<close>

fun num_of :: "jval \<Rightarrow> rat" where
  "num_of (JInt i) = of_int i"
| "num_of (JFloat r) = r"
| "num_of (JBool b) = (if b then 1 else 0)"
| "num_of _ = 0"

definition field_sum :: "string \<Rightarrow> row list \<Rightarrow> rat" where
  "field_sum k rows = sum_list (map (\<lambda>row. num_of (dict_get row k (JInt 0))) rows)"

text \<open>
  The twelve monthly volumes after the partial-month adjustment of the fallback, at
  the clock reading \<open>t\<close>.
\<close>

definition effective_volumes :: "string \<Rightarrow> int \<Rightarrow> datetime \<Rightarrow> rat list" where
  "effective_volumes c y t =
     map (\<lambda>iv. if y = int (dt_year t) \<and> fst iv + 1 = dt_month t
               then snd iv * (of_nat (dt_day t) / 30) else snd iv)
       (List.enumerate 0 (export_volumes c y))"

text \<open>
  Every list cached under a monthly-exports key is one that the fallback produced
  for that commodity and year at some clock reading: the only lists
  \<open>get_monthly_exports\<close> stores.
\<close>

definition exports_cache_ok :: "service \<Rightarrow> bool" where
  "exports_cache_ok s =
     (\<forall>c y. case map_of (cache s) (exports_key c y) of
              None \<Rightarrow> True
            | Some rows \<Rightarrow> (\<exists>t. get_monthly_exports_fallback c y t = Inr rows))"

text \<open>
  Likewise for the balance sheets: a cached list is the built-in table of its
  commodity, the only list \<open>get_balance_sheet\<close> stores.
\<close>

definition balance_cache_ok :: "service \<Rightarrow> bool" where
  "balance_cache_ok s =
     (\<forall>c. case map_of (cache s) (balance_key c) of
            None \<Rightarrow> True
          | Some rows \<Rightarrow> rows = get_balance_sheet_fallback c)"

text \<open>
  The cache keys that \<open>get_dashboard_summary\<close> populates, in the order of its fetches.
\<close>

definition dashboard_keys :: "string list" where
  "dashboard_keys =
     [balance_key ''soybeans'', balance_key ''corn'',
      exports_key ''soybeans'' 2024, exports_key ''soybeans'' 2025,
      exports_key ''corn'' 2024, exports_key ''corn'' 2025]"

text \<open>
  Every cached key has a recorded timestamp: both maps are written together, and a
  refresh clears the cache only.
\<close>

definition stamps_cover_cache :: "service \<Rightarrow> bool" where
  "stamps_cover_cache s = (set (dict_keys (cache s)) \<subseteq> set (dict_keys (last_updated s)))"

text \<open>
  The three conditions together. They hold in the initial state and every operation
  of the service keeps them (shown below).
\<close>

definition service_ok :: "service \<Rightarrow> bool" where
  "service_ok s = (exports_cache_ok s \<and> balance_cache_ok s \<and> stamps_cover_cache s)"

text \<open>
  A Python dictionary holds each key once; the association lists that stand for the
  two dictionaries of the service must do so too.
\<close>

definition keys_distinct :: "service \<Rightarrow> bool" where
  "keys_distinct s =
     (distinct (dict_keys (cache s)) \<and> distinct (dict_keys (last_updated s)))"

text \<open>The \<open>data\<close> field of a result; \<open>None\<close> when the operation raised.\<close>

definition result_data :: "py_error + response \<Rightarrow> row list option" where
  "result_data r = (case r of Inl e \<Rightarrow> None | Inr resp \<Rightarrow> data_of resp)"

text \<open>
  The timestamps after the six cache-filling fetches of the dashboard, the \<open>i\<close>-th one
  made at \<open>clk i\<close>, starting from the last-updated map \<open>lu\<close>.
\<close>

definition dashboard_stamps ::
  "(nat \<Rightarrow> datetime) \<Rightarrow> (string \<times> datetime) list \<Rightarrow> (string \<times> datetime) list" where
  "dashboard_stamps clk lu =
     AList.update (exports_key ''corn'' 2025) (clk 5)
       (AList.update (exports_key ''corn'' 2024) (clk 4)
         (AList.update (exports_key ''soybeans'' 2025) (clk 3)
           (AList.update (exports_key ''soybeans'' 2024) (clk 2)
             (AList.update (balance_key ''corn'') (clk 1)
               (AList.update (balance_key ''soybeans'') (clk 0) lu)))))"

text \<open>Two clock readings for the concrete instances below.\<close>

definition instant_a :: datetime where
  "instant_a = \<lparr>dt_year = 2025, dt_month = 6, dt_day = 15, dt_hour = 10, dt_minute = 30,
                 dt_second = 0, dt_microsecond = 0\<rparr>"

definition instant_b :: datetime where
  "instant_b = \<lparr>dt_year = 2026, dt_month = 11, dt_day = 4, dt_hour = 9, dt_minute = 5,
                 dt_second = 7, dt_microsecond = 120\<rparr>"

text \<open>
  A service that has answered a balance-sheet request for wheat at \<open>instant_a\<close> and a
  monthly-exports request for corn in 2025 at \<open>instant_b\<close>.
\<close>

definition service_b :: service where
  "service_b =
     snd (get_monthly_exports ''corn'' 2025 True instant_b
            (snd (get_balance_sheet ''wheat'' 6 instant_a init_service)))"

section \<open>Properties\<close>

subsection \<open>Slices and responses\<close>

lemma slice_from_last:
  "1 \<le> years \<Longrightarrow> slice_from (- years) xs = drop (length xs - nat years) xs"
  by (simp add: slice_from_def slice_bound_def Let_def)
     (smt (verit) nat_0_iff nat_diff_distrib' nat_int of_nat_0_le_iff max_def)

lemma cached_slice:
  "(if int (length xs) > years then slice_from (- years) xs else xs) = slice_from (- years) xs"
  by (auto simp: slice_from_def slice_bound_def Let_def max_def min_def)

lemma data_of_balance_response [simp]: "data_of (balance_response c t rows) = Some rows"
  by (simp add: data_of_def balance_response_def)

lemma last_updated_of_balance_response [simp]:
  "last_updated_of (balance_response c t rows) = Some t"
  by (simp add: last_updated_of_def balance_response_def)

subsection \<open>Balance sheet\<close>

lemma get_balance_sheet_data:
  "data_of (fst (get_balance_sheet c years now s)) =
     Some (slice_from (- years) (stored_series s c))"
  by (simp add: get_balance_sheet_def stored_series_def Let_def cached_slice
      split: option.splits)

lemma soybeans_last_two:
  "slice_from (- 2) (get_balance_sheet_fallback ''soybeans'') =
     [bs_row ''2024/25'' 7.231 171.481 0.969 60.769 108.181 10.731,
      projection (bs_row ''2025/26'' 10.731 176.124 0.500 64.266 111.791 11.298)]"
  by (simp add: get_balance_sheet_fallback_def dict_get_def balance_sheet_table_def
      slice_from_def slice_bound_def)

lemma fallback_ascending:
  "sorted_wrt (<) (map year_label (get_balance_sheet_fallback c))"
  by (simp add: get_balance_sheet_fallback_def balance_sheet_table_def dict_get_def
      year_label_def bs_row_def projection_def)

text \<open>
  C4. For \<open>years \<ge> 1\<close>, the \<open>data\<close> of \<open>get_balance_sheet commodity years\<close> has at
  most \<open>years\<close> rows and is the stored series without its first
  \<open>length - years\<close> rows: its last rows, in the stored order, which for the built-in
  table of any commodity is the ascending order of the crop-year labels. For soybeans and
  \<open>years = 2\<close>, with the built-in table as the stored series, the rows are those of
  the crop years 2024/25 and 2025/26, and only the second carries
  \<open>isProjection = True\<close> (the first has no such key).
\<close>

theorem balance_sheet_last_rows:
  assumes "1 \<le> years"
  shows "\<exists>rows. data_of (fst (get_balance_sheet commodity years now s)) = Some rows \<and>
           int (length rows) \<le> years \<and>
           rows = drop (length (stored_series s commodity) - nat years)
                    (stored_series s commodity) \<and>
           (stored_series s commodity = get_balance_sheet_fallback commodity \<longrightarrow>
              sorted_wrt (<) (map year_label rows)) \<and>
           (commodity = ''soybeans'' \<and> years = 2 \<and>
            stored_series s commodity = get_balance_sheet_fallback commodity \<longrightarrow>
              map (\<lambda>r. map_of r ''year'') rows =
                [Some (JStr ''2024/25''), Some (JStr ''2025/26'')] \<and>
              map (\<lambda>r. map_of r ''isProjection'') rows = [None, Some (JBool True)])"
proof -
  let ?st = "stored_series s commodity"
  let ?rows = "slice_from (- years) ?st"
  have d: "data_of (fst (get_balance_sheet commodity years now s)) = Some ?rows"
    by (rule get_balance_sheet_data)
  have e: "?rows = drop (length ?st - nat years) ?st"
    using assms by (rule slice_from_last)
  have l: "int (length ?rows) \<le> years"
    using assms by (simp add: e)
  have a: "?st = get_balance_sheet_fallback commodity \<longrightarrow>
           sorted_wrt (<) (map year_label ?rows)"
    unfolding e using fallback_ascending[of commodity]
    by (auto simp: drop_map[symmetric] intro: sorted_wrt_drop)
  have p: "commodity = ''soybeans'' \<and> years = 2 \<and>
           ?st = get_balance_sheet_fallback commodity \<longrightarrow>
      map (\<lambda>r. map_of r ''year'') ?rows = [Some (JStr ''2024/25''), Some (JStr ''2025/26'')] \<and>
      map (\<lambda>r. map_of r ''isProjection'') ?rows = [None, Some (JBool True)]"
    by (auto simp: soybeans_last_two bs_row_def projection_def)
  show ?thesis
    by (intro exI[of _ ?rows] conjI) (rule d, rule l, rule e, rule a, rule p)
qed

theorem balance_sheet_last_rows_witness:
  "(1::int) \<le> 2 \<and>
   (\<exists>rows. data_of (fst (get_balance_sheet ''soybeans'' 2 instant_a init_service)) = Some rows \<and>
      length rows = 2 \<and> sorted_wrt (<) (map year_label rows) \<and>
      map (\<lambda>r. map_of r ''year'') rows = [Some (JStr ''2024/25''), Some (JStr ''2025/26'')] \<and>
      map (\<lambda>r. map_of r ''isProjection'') rows = [None, Some (JBool True)])"
proof -
  have st: "stored_series init_service ''soybeans'' = get_balance_sheet_fallback ''soybeans''"
    by (simp add: stored_series_def init_service_def)
  have len: "length (get_balance_sheet_fallback ''soybeans'') = 6"
    by (simp add: get_balance_sheet_fallback_def dict_get_def balance_sheet_table_def)
  from balance_sheet_last_rows [of 2 "''soybeans''" instant_a init_service]
  show ?thesis by (auto simp: st len)
qed

subsection \<open>Production\<close>

text \<open>
  C9. The \<open>state\<close> argument of \<open>get_production\<close> has no influence: for any two values
  of it (absent included) the \<open>data\<close> fields are the same, whatever the clock, and
  at the same clock reading the whole responses are the same.
\<close>

theorem get_production_ignores_state:
  "data_of (get_production commodity years state1 now1) =
     data_of (get_production commodity years state2 now2) \<and>
   get_production commodity years state1 now = get_production commodity years state2 now"
  by (simp add: get_production_def production_response_def data_of_def)

subsection \<open>Monthly exports: the fallback\<close>

lemma map_err_total:
  "(\<And>x. x \<in> set xs \<Longrightarrow> \<exists>y. f x = Inr y) \<Longrightarrow> map_err f xs = Inr (map (\<lambda>x. projr (f x)) xs)"
proof (induction xs)
  case Nil
  then show ?case by simp
next
  case (Cons x xs)
  from Cons.prems obtain y where y: "f x = Inr y" by auto
  have "map_err f xs = Inr (map (\<lambda>x. projr (f x)) xs)"
    by (rule Cons.IH) (simp add: Cons.prems)
  with y show ?case by simp
qed

lemma month_name_ok: "i < 12 \<Longrightarrow> month_name i = Inr (MONTH_NAMES ! i)"
  by (simp add: month_name_def MONTH_NAMES_def)

lemma length_export_volumes [simp]: "length (export_volumes c y) = 12"
  by (simp add: export_volumes_def dict_get_def export_patterns_def split: option.splits if_splits)

lemma export_row_ok:
  "i < 12 \<Longrightarrow> export_row c y now sh cm (i, v) =
     Inr [(''year'', JInt y),
          (''month'', JInt (int i + 1)),
          (''monthName'', JStr (MONTH_NAMES ! i)),
          (''volumeMt'', JFloat ((if y = int (dt_year now) \<and> i + 1 = cm then v * (of_nat (dt_day now) / 30) else v) * 1000000)),
          (''volumeMmt'', JFloat (round_dec 2 (if y = int (dt_year now) \<and> i + 1 = cm then v * (of_nat (dt_day now) / 30) else v))),
          (''valueUsd'', JFloat ((if y = int (dt_year now) \<and> i + 1 = cm then v * (of_nat (dt_day now) / 30) else v) * 420000000)),
          (''toChinaMt'', if c \<in> set [''soybeans'', ''soy_meal''] then JFloat ((if y = int (dt_year now) \<and> i + 1 = cm then v * (of_nat (dt_day now) / 30) else v) * 1000000 * sh) else JNone),
          (''toChinaPct'', if c \<in> set [''soybeans'', ''soy_meal''] then JFloat (sh * 100) else JNone),
          (''isPartial'', JBool (y = int (dt_year now) \<and> i + 1 = cm))]"
  by (simp add: export_row_def month_name_ok Let_def)

lemma fallback_rows:
  "get_monthly_exports_fallback c y now =
     Inr (map (\<lambda>iv. projr (export_row c y now (if c = ''soybeans'' then 0.77 else 0.02)
                 (if y = int (dt_year now) then dt_month now else 12) iv))
            (List.enumerate 0 (export_volumes c y)))"
  unfolding get_monthly_exports_fallback_def Let_def
  by (rule map_err_total) (auto simp: in_set_enumerate_eq export_row_ok)

lemma fallback_nth:
  assumes "i < 12"
  shows "\<exists>rows. get_monthly_exports_fallback c y now = Inr rows \<and> length rows = 12 \<and>
     Inr (rows ! i) = export_row c y now (if c = ''soybeans'' then 0.77 else 0.02)
                 (if y = int (dt_year now) then dt_month now else 12) (i, export_volumes c y ! i)"
  using assms by (simp add: fallback_rows nth_enumerate_eq export_row_ok)




subsection \<open>Monthly prices\<close>

lemma round_dec_zero [simp]: "round_dec n 0 = 0"
  by (simp add: round_dec_def round_half_even_def)

lemma price_series_length [simp]: "length (price_series c loc) = 12"
  by (simp add: price_series_def dict_get_def price_table_def split: option.splits if_splits)

lemma price_series_nonzero: "0 \<notin> set (price_series c loc)"
  by (simp add: price_series_def dict_get_def price_table_def split: option.splits if_splits)

lemma price_row_ok:
  assumes "i < 12" and "ps ! (i - 1) \<noteq> 0" and "ps ! i \<noteq> 0"
  shows "price_row year loc ps (i, ps ! i) =
     Inr [(''year'', JInt year),
          (''month'', JInt (int i + 1)),
          (''monthName'', JStr (MONTH_NAMES ! i)),
          (''location'', JStr loc),
          (''priceBrl'', JInt (ps ! i)),
          (''priceUsd'', JFloat (round_dec 2 (of_int (ps ! i) / 6))),
          (''momChangePct'',
             if i = 0 then JFloat 0
             else JFloat (round_dec 1 (of_int (ps ! i - ps ! (i - 1)) / of_int (ps ! (i - 1)) * 100)))]"
  using assms by (cases "i = 0") (simp_all add: price_row_def month_name_ok Let_def)

lemma location_rows_ok:
  "location_rows year (dict_get price_table c []) loc =
     Inr (map (\<lambda>ip. projr (price_row year loc (price_series c loc) ip))
            (List.enumerate 0 (price_series c loc)))"
proof -
  have nz: "price_series c loc ! k \<noteq> 0" if "k < 12" for k
    using price_series_nonzero[of c loc] that by (metis nth_mem price_series_length)
  have "\<exists>y. price_row year loc (price_series c loc) ip = Inr y"
    if "ip \<in> set (List.enumerate 0 (price_series c loc))" for ip
  proof -
    from that have i: "fst ip < 12" and v: "snd ip = price_series c loc ! fst ip"
      by (auto simp: in_set_enumerate_eq)
    have "price_row year loc (price_series c loc) (fst ip, price_series c loc ! fst ip) = Inr
       (projr (price_row year loc (price_series c loc) (fst ip, price_series c loc ! fst ip)))"
      using i by (simp add: price_row_ok nz)
    then show ?thesis using v by (metis prod.collapse)
  qed
  then show ?thesis
    unfolding location_rows_def Let_def price_series_def[symmetric]
    by (rule map_err_total)
qed

lemma get_prices_fallback_rows:
  "get_prices_fallback c year location =
     Inr (concat (map (\<lambda>loc. map (\<lambda>ip. projr (price_row year loc (price_series c loc) ip))
            (List.enumerate 0 (price_series c loc))) (price_locations c location)))"
proof -
  have "map_err (location_rows year (dict_get price_table c [])) (price_locations c location) =
        Inr (map (\<lambda>loc. projr (location_rows year (dict_get price_table c []) loc))
               (price_locations c location))"
    by (rule map_err_total) (simp add: location_rows_ok)
  then show ?thesis
    by (simp add: get_prices_fallback_def price_locations_def[symmetric] Let_def location_rows_ok)
qed


text \<open>
  C7. \<open>get_monthly_prices\<close> returns, for each location of the query in turn, twelve
  rows, months 1 to 12. In each row \<open>momChangePct\<close> is
  \<open>(price - previous) / previous * 100\<close> rounded to one decimal, where \<open>previous\<close> is
  the price of the preceding month in the same location's series; in the first
  month of each location's series it is 0.
\<close>

theorem monthly_prices_mom_change:
  "\<exists>resp per_loc.
     get_monthly_prices commodity year location now = Inr resp \<and>
     data_of resp = Some (concat per_loc) \<and>
     length per_loc = length (price_locations commodity location) \<and>
     (\<forall>j < length per_loc. length (per_loc ! j) = 12 \<and>
        (\<forall>i < 12.
           let loc = price_locations commodity location ! j;
               series = price_series commodity loc;
               row = per_loc ! j ! i
           in map_of row ''location'' = Some (JStr loc) \<and>
              map_of row ''month'' = Some (JInt (int i + 1)) \<and>
              map_of row ''priceBrl'' = Some (JInt (series ! i)) \<and>
              map_of row ''momChangePct'' =
                Some (if i = 0 then JFloat 0
                      else JFloat (round_dec 1 (of_int (series ! i - series ! (i - 1)) /
                                                of_int (series ! (i - 1)) * 100)))))"
proof -
  let ?locs = "price_locations commodity location"
  let ?rows = "\<lambda>loc. map (\<lambda>ip. projr (price_row year loc (price_series commodity loc) ip))
                        (List.enumerate 0 (price_series commodity loc))"
  let ?per_loc = "map ?rows ?locs"
  let ?resp = "prices_response commodity now (concat ?per_loc)"
  have nz: "price_series commodity loc ! k \<noteq> 0" if "k < 12" for k loc
    using price_series_nonzero[of commodity loc] that by (metis nth_mem price_series_length)
  have r: "get_monthly_prices commodity year location now = Inr ?resp"
    by (simp add: get_monthly_prices_def get_prices_fallback_rows)
  have d: "data_of ?resp = Some (concat ?per_loc)"
    by (simp add: data_of_def prices_response_def)
  have l: "length ?per_loc = length ?locs" by simp
  have a: "\<forall>j < length ?per_loc. length (?per_loc ! j) = 12 \<and>
        (\<forall>i < 12.
           let loc = ?locs ! j;
               series = price_series commodity loc;
               row = ?per_loc ! j ! i
           in map_of row ''location'' = Some (JStr loc) \<and>
              map_of row ''month'' = Some (JInt (int i + 1)) \<and>
              map_of row ''priceBrl'' = Some (JInt (series ! i)) \<and>
              map_of row ''momChangePct'' =
                Some (if i = 0 then JFloat 0
                      else JFloat (round_dec 1 (of_int (series ! i - series ! (i - 1)) /
                                                of_int (series ! (i - 1)) * 100))))"
    (is "\<forall>j < length ?per_loc. ?L j \<and> (\<forall>i<12. ?P j i)")
  proof (intro allI impI conjI)
    fix j assume j: "j < length ?per_loc"
    then show "?L j" by simp
    fix i :: nat assume i: "i < 12"
    have n: "?per_loc ! j ! i =
        projr (price_row year (?locs ! j) (price_series commodity (?locs ! j))
                 (i, price_series commodity (?locs ! j) ! i))"
      using i j by (simp add: nth_enumerate_eq)
    have p: "i - 1 < 12" using i by simp
    show "?P j i"
      unfolding n Let_def
      by (simp add: price_row_ok[OF i nz[OF p] nz[OF i]])
  qed
  show ?thesis
    by (intro exI[of _ ?resp] exI[of _ ?per_loc] conjI) (rule r, rule d, rule l, rule a)
qed

lemma wheat_feb: "round_dec 1 (of_int (85 - 88) / of_int 88 * 100) = - 3.4"
  by code_simp

theorem monthly_prices_mom_change_witness:
  "\<exists>resp rows. get_monthly_prices ''wheat'' 2025 None instant_a = Inr resp \<and>
      data_of resp = Some rows \<and>
      map_of (rows ! 0) ''momChangePct'' = Some (JFloat 0) \<and>
      map_of (rows ! 1) ''priceBrl'' = Some (JInt 85) \<and>
      map_of (rows ! 1) ''momChangePct'' = Some (JFloat (- 3.4))"
proof -
  have locs: "price_locations ''wheat'' None = [''PR'']"
    by (simp add: price_locations_def dict_keys_def dict_get_def price_table_def)
  have ser: "price_series ''wheat'' ''PR'' = [88, 85, 82, 80, 78, 77, 79, 82, 85, 88, 91, 93]"
    by (simp add: price_series_def dict_get_def price_table_def)
  from monthly_prices_mom_change [of "''wheat''" 2025 None instant_a]
  obtain resp per_loc where
    r: "get_monthly_prices ''wheat'' 2025 None instant_a = Inr resp" and
    d: "data_of resp = Some (concat per_loc)" and
    l: "length per_loc = 1" and
    a: "\<forall>i<12. map_of (per_loc ! 0 ! i) ''priceBrl'' =
                    Some (JInt ([88, 85, 82, 80, 78, 77, 79, 82, 85, 88, 91, 93] ! i)) \<and>
                  map_of (per_loc ! 0 ! i) ''momChangePct'' =
                    Some (if i = 0 then JFloat 0
                      else JFloat (round_dec 1
                        (of_int ([88, 85, 82, 80, 78, 77, 79, 82, 85, 88, 91, 93] ! i -
                                 [88, 85, 82, 80, 78, 77, 79, 82, 85, 88, 91, 93] ! (i - 1)) /
                         of_int ([88, 85, 82, 80, 78, 77, 79, 82, 85, 88, 91, 93] ! (i - 1)) * 100)))"
    unfolding locs by (auto simp: ser Let_def)
  from l obtain x where x: "per_loc = [x]"
    by (cases per_loc) auto
  have c: "concat per_loc = per_loc ! 0" by (simp add: x)
  have a0: "map_of (per_loc ! 0 ! 0) ''momChangePct'' = Some (JFloat 0)"
    using a by auto
  have a1: "map_of (per_loc ! 0 ! 1) ''priceBrl'' = Some (JInt 85) \<and>
            map_of (per_loc ! 0 ! 1) ''momChangePct'' =
              Some (JFloat (round_dec 1 (of_int (85 - 88) / of_int 88 * 100)))"
    using a[rule_format, of 1] by simp
  show ?thesis
    using r d a0 a1 unfolding c wheat_feb by blast
qed

subsection \<open>Monthly exports: sums over the rows\<close>

lemma sum_from_floats:
  "sum_from (JFloat a) (map JFloat xs) = Inr (JFloat (a + sum_list xs))"
  by (induction xs arbitrary: a) (simp_all add: add.assoc)

lemma py_sum_floats:
  "xs \<noteq> [] \<Longrightarrow> py_sum (map JFloat xs) = Inr (JFloat (sum_list xs))"
  by (cases xs) (simp_all add: py_sum_def sum_from_floats)

lemma sum_from_zeros: "sum_from (JInt 0) (map (\<lambda>x. JInt 0) xs) = Inr (JInt 0)"
  by (induction xs) simp_all

lemma sum_from_float_or_zero:
  "sum_from (JFloat a) (map (\<lambda>x. if x \<noteq> 0 then JFloat x else JInt 0) xs) =
     Inr (JFloat (a + sum_list xs))"
  by (induction xs arbitrary: a) (simp_all add: add.assoc)

lemma py_sum_float_or_zero:
  "py_sum (map (\<lambda>x. if x \<noteq> 0 then JFloat x else JInt 0) xs) =
     Inr (if list_all (\<lambda>x. x = 0) xs then JInt 0 else JFloat (sum_list xs))"
  unfolding py_sum_def
  by (induction xs) (simp_all add: sum_from_float_or_zero)

lemma export_volumes_pos: "v \<in> set (export_volumes c y) \<Longrightarrow> 0 < v"
  by (auto simp: export_volumes_def dict_get_def export_patterns_def split: option.splits if_splits)


lemma fallback_volumeMmt:
  assumes "get_monthly_exports_fallback c y t = Inr rows"
  shows "map (\<lambda>row. dict_get row ''volumeMmt'' (JInt 0)) rows =
           map JFloat (map (round_dec 2) (effective_volumes c y t))"
proof -
  have "rows = map (\<lambda>iv. projr (export_row c y t (if c = ''soybeans'' then 0.77 else 0.02)
                 (if y = int (dt_year t) then dt_month t else 12) iv))
            (List.enumerate 0 (export_volumes c y))"
    using assms by (simp add: fallback_rows)
  then show ?thesis
    by (auto simp: effective_volumes_def in_set_enumerate_eq export_row_ok dict_get_def)
qed

lemma fallback_toChinaMt:
  assumes "get_monthly_exports_fallback c y t = Inr rows"
  shows "map (\<lambda>row. let v = dict_get row ''toChinaMt'' (JInt 0)
                    in if truthy v then v else JInt 0) rows =
           (if c \<in> set [''soybeans'', ''soy_meal'']
            then map (\<lambda>x. if x \<noteq> 0 then JFloat x else JInt 0)
                   (map (\<lambda>v. v * 1000000 * (if c = ''soybeans'' then 0.77 else 0.02))
                      (effective_volumes c y t))
            else map (\<lambda>x. JInt 0) (effective_volumes c y t))"
proof -
  have "rows = map (\<lambda>iv. projr (export_row c y t (if c = ''soybeans'' then 0.77 else 0.02)
                 (if y = int (dt_year t) then dt_month t else 12) iv))
            (List.enumerate 0 (export_volumes c y))"
    using assms by (simp add: fallback_rows)
  then show ?thesis
    by (auto simp: effective_volumes_def in_set_enumerate_eq export_row_ok dict_get_def Let_def)
qed

lemma fallback_field_sums:
  assumes "get_monthly_exports_fallback c y t = Inr rows"
  shows "field_sum ''volumeMmt'' rows = sum_list (map (round_dec 2) (effective_volumes c y t))"
    and "field_sum ''toChinaMt'' rows =
           (if c \<in> set [''soybeans'', ''soy_meal'']
            then sum_list (map (\<lambda>v. v * 1000000 * (if c = ''soybeans'' then 0.77 else 0.02))
                             (effective_volumes c y t))
            else 0)"
proof -
  have r: "rows = map (\<lambda>iv. projr (export_row c y t (if c = ''soybeans'' then 0.77 else 0.02)
                 (if y = int (dt_year t) then dt_month t else 12) iv))
            (List.enumerate 0 (export_volumes c y))"
    using assms by (simp add: fallback_rows)
  have "map (\<lambda>row. num_of (dict_get row ''volumeMmt'' (JInt 0))) rows =
        map (round_dec 2) (effective_volumes c y t)"
    unfolding r
    by (auto simp: effective_volumes_def in_set_enumerate_eq export_row_ok dict_get_def)
  then show "field_sum ''volumeMmt'' rows = sum_list (map (round_dec 2) (effective_volumes c y t))"
    by (simp add: field_sum_def)
  have "map (\<lambda>row. num_of (dict_get row ''toChinaMt'' (JInt 0))) rows =
        (if c \<in> set [''soybeans'', ''soy_meal'']
         then map (\<lambda>v. v * 1000000 * (if c = ''soybeans'' then 0.77 else 0.02))
                (effective_volumes c y t)
         else map (\<lambda>v. 0) (effective_volumes c y t))"
    unfolding r
    by (auto simp: effective_volumes_def in_set_enumerate_eq export_row_ok dict_get_def)
  then show "field_sum ''toChinaMt'' rows =
           (if c \<in> set [''soybeans'', ''soy_meal'']
            then sum_list (map (\<lambda>v. v * 1000000 * (if c = ''soybeans'' then 0.77 else 0.02))
                             (effective_volumes c y t))
            else 0)"
    by (simp add: field_sum_def)
qed

lemma effective_volumes_length [simp]: "length (effective_volumes c y t) = 12"
  by (simp add: effective_volumes_def)

lemma export_volumes_nth_pos: "i < 12 \<Longrightarrow> 0 < export_volumes c y ! i"
  by (rule export_volumes_pos[of _ c y]) simp

lemma effective_volumes_nonneg: "v \<in> set (effective_volumes c y t) \<Longrightarrow> 0 \<le> v"
  by (auto simp: effective_volumes_def in_set_enumerate_eq export_volumes_nth_pos less_imp_le)

lemma effective_volumes_some_pos: "\<exists>v \<in> set (effective_volumes c y t). 0 < v"
proof -
  have p0: "0 < export_volumes c y ! 0" and p1: "0 < export_volumes c y ! 1"
    by (simp_all add: export_volumes_nth_pos)
  have e: "effective_volumes c y t ! 0 = export_volumes c y ! 0 \<or>
           effective_volumes c y t ! 1 = export_volumes c y ! 1"
    by (auto simp: effective_volumes_def nth_enumerate_eq)
  have "effective_volumes c y t ! 0 \<in> set (effective_volumes c y t)"
       "effective_volumes c y t ! 1 \<in> set (effective_volumes c y t)"
    by simp_all
  with e p0 p1 show ?thesis by metis
qed


lemma fallback_py_sum_volume:
  assumes "get_monthly_exports_fallback c y t = Inr rows"
  shows "py_sum (map (\<lambda>row. dict_get row ''volumeMmt'' (JInt 0)) rows) =
           Inr (JFloat (field_sum ''volumeMmt'' rows))"
proof -
  have "map (round_dec 2) (effective_volumes c y t) \<noteq> []"
    by (simp flip: length_0_conv)
  then have "py_sum (map JFloat (map (round_dec 2) (effective_volumes c y t))) =
               Inr (JFloat (sum_list (map (round_dec 2) (effective_volumes c y t))))"
    by (rule py_sum_floats)
  then show ?thesis
    by (simp only: fallback_volumeMmt[OF assms] fallback_field_sums(1)[OF assms])
qed

lemma sum_list_all_zero: "list_all (\<lambda>x. x = 0) xs \<Longrightarrow> sum_list xs = (0::rat)"
  by (induction xs) auto

lemma china_sum_pos:
  assumes "0 < sh"
  shows "0 < sum_list (map (\<lambda>v. v * 1000000 * sh) (effective_volumes c y t))"
proof -
  let ?xs = "map (\<lambda>v. v * 1000000 * sh) (effective_volumes c y t)"
  have nn: "0 \<le> x" if "x \<in> set ?xs" for x
    using that assms by (auto dest: effective_volumes_nonneg)
  obtain v where v: "v \<in> set (effective_volumes c y t)" "0 < v"
    using effective_volumes_some_pos by blast
  have "v * 1000000 * sh \<in> set ?xs" unfolding set_map using v(1) by (rule imageI)
  moreover have "0 < v * 1000000 * sh" using v(2) assms by simp
  ultimately have "\<not> (\<forall>x \<in> set ?xs. x = 0)" by fastforce
  then have "sum_list ?xs \<noteq> 0"
    using sum_list_nonneg_eq_0_iff[of ?xs] nn by blast
  moreover have "0 \<le> sum_list ?xs" by (rule sum_list_nonneg) (rule nn)
  ultimately show ?thesis by simp
qed

lemma fallback_py_sum_china:
  assumes "get_monthly_exports_fallback c y t = Inr rows"
  shows "py_sum (map (\<lambda>row. let v = dict_get row ''toChinaMt'' (JInt 0)
                           in if truthy v then v else JInt 0) rows) =
           Inr (if c \<in> set [''soybeans'', ''soy_meal'']
                then JFloat (field_sum ''toChinaMt'' rows) else JInt 0)"
    and "c \<in> set [''soybeans'', ''soy_meal''] \<Longrightarrow> field_sum ''toChinaMt'' rows \<noteq> 0"
proof -
  let ?sh = "if c = ''soybeans'' then 0.77 else (0.02 :: rat)"
  let ?xs = "map (\<lambda>v. v * 1000000 * ?sh) (effective_volumes c y t)"
  have pos: "0 < sum_list ?xs" by (rule china_sum_pos) simp
  have "sum_list ?xs = 0" if "list_all (\<lambda>x. x = 0) ?xs"
    by (rule sum_list_all_zero) (rule that)
  with pos have nz: "\<not> list_all (\<lambda>x. x = 0) ?xs" by auto
  show "py_sum (map (\<lambda>row. let v = dict_get row ''toChinaMt'' (JInt 0)
                           in if truthy v then v else JInt 0) rows) =
           Inr (if c \<in> set [''soybeans'', ''soy_meal'']
                then JFloat (field_sum ''toChinaMt'' rows) else JInt 0)"
  proof (cases "c \<in> set [''soybeans'', ''soy_meal'']")
    case True
    then show ?thesis
      using nz
      by (simp only: fallback_toChinaMt[OF assms] fallback_field_sums(2)[OF assms]
            py_sum_float_or_zero if_True if_False)
  next
    case False
    then show ?thesis
      by (simp only: fallback_toChinaMt[OF assms] if_False py_sum_def sum_from_zeros)
  qed
  show "field_sum ''toChinaMt'' rows \<noteq> 0" if "c \<in> set [''soybeans'', ''soy_meal'']"
    using that pos by (simp only: fallback_field_sums(2)[OF assms] if_True)
qed

subsection \<open>Monthly exports: the operation\<close>

lemma exports_response_fields [simp]:
  "data_of (exports_response c y t rows a b) = Some rows"
  "last_updated_of (exports_response c y t rows a b) = Some t"
  "map_of (exports_response c y t rows a b) ''ytdTotalMmt'' = Some (Scalar a)"
  "map_of (exports_response c y t rows a b) ''ytdToChinaMmt'' = Some (Scalar b)"
  by (simp_all add: exports_response_def data_of_def last_updated_of_def)

lemma exports_result:
  assumes f: "get_monthly_exports_fallback c y t = Inr rows"
  shows "(case py_sum (map (\<lambda>row. dict_get row ''volumeMmt'' (JInt 0)) rows) of
            Inl e \<Rightarrow> (Inl e, s')
          | Inr ytd_total \<Rightarrow>
             (case (if inc
                    then (case py_sum (map (\<lambda>row. if truthy (dict_get row ''toChinaMt'' (JInt 0))
                                                  then dict_get row ''toChinaMt'' (JInt 0)
                                                  else JInt 0) rows) of
                            Inl e \<Rightarrow> Inl e
                          | Inr china_sum \<Rightarrow> py_truediv china_sum 1000000)
                    else Inr JNone) of
                Inl e \<Rightarrow> (Inl e, s')
              | Inr ytd_china \<Rightarrow>
                 (case py_round ytd_total 2 of
                    Inl e \<Rightarrow> (Inl e, s')
                  | Inr total_rounded \<Rightarrow>
                     (case (if truthy ytd_china then py_round ytd_china 2 else Inr JNone) of
                        Inl e \<Rightarrow> (Inl e, s')
                      | Inr china_rounded \<Rightarrow>
                         (Inr (exports_response c y stamp rows total_rounded china_rounded),
                          s'))))) =
         (Inr (exports_response c y stamp rows
                 (JFloat (round_dec 2 (field_sum ''volumeMmt'' rows)))
                 (if inc \<and> c \<in> set [''soybeans'', ''soy_meal'']
                  then JFloat (round_dec 2 (field_sum ''toChinaMt'' rows / 1000000))
                  else JNone)), s')"
  using fallback_py_sum_china(2)[OF f]
  by (simp add: fallback_py_sum_volume[OF f] fallback_py_sum_china(1)[OF f, unfolded Let_def])

lemma get_monthly_exports_hit:
  assumes "map_of (cache s) (exports_key c y) = Some rows"
      and "get_monthly_exports_fallback c y t = Inr rows"
  shows "get_monthly_exports c y inc now s =
         (Inr (exports_response c y (dict_get (last_updated s) (exports_key c y) now) rows
                 (JFloat (round_dec 2 (field_sum ''volumeMmt'' rows)))
                 (if inc \<and> c \<in> set [''soybeans'', ''soy_meal'']
                  then JFloat (round_dec 2 (field_sum ''toChinaMt'' rows / 1000000))
                  else JNone)), s)"
  unfolding get_monthly_exports_def Let_def
  by (simp only: assms(1) option.case sum.case prod.case exports_result[OF assms(2)])

lemma get_monthly_exports_miss:
  assumes "map_of (cache s) (exports_key c y) = None"
  shows "\<exists>rows. get_monthly_exports_fallback c y now = Inr rows \<and>
         get_monthly_exports c y inc now s =
         (Inr (exports_response c y now rows
                 (JFloat (round_dec 2 (field_sum ''volumeMmt'' rows)))
                 (if inc \<and> c \<in> set [''soybeans'', ''soy_meal'']
                  then JFloat (round_dec 2 (field_sum ''toChinaMt'' rows / 1000000))
                  else JNone)),
          s\<lparr>cache := AList.update (exports_key c y) rows (cache s),
            last_updated := AList.update (exports_key c y) now (last_updated s)\<rparr>)"
proof -
  obtain rows where f: "get_monthly_exports_fallback c y now = Inr rows"
    by (simp add: fallback_rows)
  have g: "dict_get (AList.update k now lu) k now = now" for k and lu :: "(string \<times> datetime) list"
    by (simp add: dict_get_def update_conv')
  show ?thesis
    unfolding get_monthly_exports_def Let_def
    by (rule exI[of _ rows])
       (simp add: assms f exports_result[OF f] g del: fallback_rows)
qed






lemma soy_meal_2025_sums:
  "map_option (\<lambda>rows. (field_sum ''volumeMmt'' rows, field_sum ''toChinaMt'' rows))
     (case fst (get_monthly_exports ''soy_meal'' 2025 True instant_b init_service) of
        Inl e \<Rightarrow> None | Inr r \<Rightarrow> data_of r) = Some (24.5, 490000)"
  by code_simp

lemma round_dec_examples: "round_dec 2 24.5 = 24.5" "round_dec 2 (490000 / 1000000) = 0.49"
  by code_simp+


subsection \<open>Dashboard and refresh\<close>

lemma get_balance_sheet_miss:
  assumes "map_of (cache s) (balance_key c) = None"
  shows "get_balance_sheet c y now s =
           (balance_response c now (slice_from (- y) (get_balance_sheet_fallback c)),
            s\<lparr>cache := AList.update (balance_key c) (get_balance_sheet_fallback c) (cache s),
              last_updated := AList.update (balance_key c) now (last_updated s)\<rparr>)"
  by (simp add: get_balance_sheet_def assms Let_def dict_get_def update_conv')

lemma get_balance_sheet_hit:
  assumes "map_of (cache s) (balance_key c) = Some cached"
  shows "get_balance_sheet c y now s =
           (balance_response c (dict_get (last_updated s) (balance_key c) now)
              (slice_from (- y) cached), s)"
  by (simp add: get_balance_sheet_def assms Let_def cached_slice)

lemma get_monthly_exports_miss_state:
  assumes "map_of (cache s) (exports_key c y) = None"
  shows "\<exists>resp. get_monthly_exports c y inc now s =
         (Inr resp,
          s\<lparr>cache := AList.update (exports_key c y)
                        (projr (get_monthly_exports_fallback c y now)) (cache s),
            last_updated := AList.update (exports_key c y) now (last_updated s)\<rparr>) \<and>
         data_of resp = Some (projr (get_monthly_exports_fallback c y now)) \<and>
         last_updated_of resp = Some now"
proof -
  from get_monthly_exports_miss[OF assms, where inc=inc and now=now]
  obtain rows where f: "get_monthly_exports_fallback c y now = Inr rows"
    and g: "get_monthly_exports c y inc now s =
         (Inr (exports_response c y now rows
                 (JFloat (round_dec 2 (field_sum ''volumeMmt'' rows)))
                 (if inc \<and> c \<in> set [''soybeans'', ''soy_meal'']
                  then JFloat (round_dec 2 (field_sum ''toChinaMt'' rows / 1000000))
                  else JNone)),
          s\<lparr>cache := AList.update (exports_key c y) rows (cache s),
            last_updated := AList.update (exports_key c y) now (last_updated s)\<rparr>)"
    by blast
  show ?thesis
    unfolding g f
    by (rule exI[of _ "exports_response c y now rows
                 (JFloat (round_dec 2 (field_sum ''volumeMmt'' rows)))
                 (if inc \<and> c \<in> set [''soybeans'', ''soy_meal'']
                  then JFloat (round_dec 2 (field_sum ''toChinaMt'' rows / 1000000))
                  else JNone)"]) simp
qed

lemma get_monthly_prices_ok:
  "get_monthly_prices c y l now =
     Inr (prices_response c now (projr (get_prices_fallback c y l)))"
  by (simp add: get_monthly_prices_def get_prices_fallback_rows)

lemma add_calculated_ok:
  "add_calculated [(''countryCode'', JStr code), (''countryName'', JStr name),
                   (''sharePct'', JFloat share), (''volumeMmt'', JFloat vol)] =
     Inr [(''countryCode'', JStr code), (''countryName'', JStr name),
          (''sharePct'', JFloat share), (''volumeMmt'', JFloat vol),
          (''volumeMt'', JFloat (vol * 1000000)), (''valueUsd'', JFloat (vol * 420000000))]"
  by (simp add: add_calculated_def item_def)

lemma destinations_calculated:
  "\<exists>rows. map_err add_calculated destinations_table = Inr rows \<and>
     map_err (\<lambda>d. item d ''volumeMmt'') rows =
       Inr (map JFloat [82.5, 4.1, 3.1, 2.2, 2.0, 1.6, 1.5, 1.2, 1.1, 8.5])"
  by (simp add: destinations_table_def add_calculated_ok item_def dest_row_def)

lemma get_exports_by_destination_ok:
  "\<exists>total rows. map_err add_calculated destinations_table = Inr rows \<and>
     get_exports_by_destination c y n now =
       Inr (destinations_response c y now total (slice_to n rows))"
proof -
  from destinations_calculated obtain rows where
    r: "map_err add_calculated destinations_table = Inr rows" and
    v: "map_err (\<lambda>d. item d ''volumeMmt'') rows =
       Inr (map JFloat [82.5, 4.1, 3.1, 2.2, 2.0, 1.6, 1.5, 1.2, 1.1, 8.5])"
    by blast
  have s: "py_sum (map JFloat [82.5, 4.1, 3.1, 2.2, 2.0, 1.6, 1.5, 1.2, 1.1, 8.5]) =
           Inr (JFloat (sum_list [82.5, 4.1, 3.1, 2.2, 2.0, 1.6, 1.5, 1.2, 1.1, 8.5]))"
    by (rule py_sum_floats) simp
  show ?thesis
    by (intro exI[of _ rows]
          exI[of _ "JFloat (round_dec 1 (sum_list [82.5, 4.1, 3.1, 2.2, 2.0, 1.6, 1.5, 1.2, 1.1, 8.5]))"]
          conjI)
       (simp_all only: get_exports_by_destination_def r v s sum.case py_round.simps)
qed

lemma key_values:
  "balance_key ''soybeans'' = ''balance_soybeans''"
  "balance_key ''corn'' = ''balance_corn''"
  "exports_key ''soybeans'' 2024 = ''exports_soybeans_2024''"
  "exports_key ''soybeans'' 2025 = ''exports_soybeans_2025''"
  "exports_key ''corn'' 2024 = ''exports_corn_2024''"
  "exports_key ''corn'' 2025 = ''exports_corn_2025''"
  by (simp_all add: balance_key_def exports_key_def str_int_def str_nat.simps digit_char_def)


lemma item_data [simp]:
  "item (balance_response c t rows) ''data'' = Inr (Rows rows)"
  "item (exports_response c y t rows a b) ''data'' = Inr (Rows rows)"
  "item (production_response c t rows) ''data'' = Inr (Rows rows)"
  "item (prices_response c t rows) ''data'' = Inr (Rows rows)"
  "item (destinations_response c y t a rows) ''data'' = Inr (Rows rows)"
  "item (ports_response c y t rows) ''data'' = Inr (Rows rows)"
  "item (complex_response t r1 r2 r3) ''soja_graos'' = Inr (Rows r1)"
  "item (complex_response t r1 r2 r3) ''farelo'' = Inr (Rows r2)"
  "item (complex_response t r1 r2 r3) ''oleo'' = Inr (Rows r3)"
  by (simp_all add: item_def balance_response_def exports_response_def production_response_def
      prices_response_def destinations_response_def ports_response_def complex_response_def)

lemma dashboard_from_empty:
  assumes "cache s0 = []"
  shows "\<exists>summary. get_dashboard_summary clk s0 =
           (Inr summary,
            s0\<lparr>cache :=
                 [(''balance_soybeans'', get_balance_sheet_fallback ''soybeans''),
                  (''balance_corn'', get_balance_sheet_fallback ''corn''),
                  (''exports_soybeans_2024'',
                     projr (get_monthly_exports_fallback ''soybeans'' 2024 (clk 2))),
                  (''exports_soybeans_2025'',
                     projr (get_monthly_exports_fallback ''soybeans'' 2025 (clk 3))),
                  (''exports_corn_2024'',
                     projr (get_monthly_exports_fallback ''corn'' 2024 (clk 4))),
                  (''exports_corn_2025'',
                     projr (get_monthly_exports_fallback ''corn'' 2025 (clk 5)))],
               last_updated := dashboard_stamps clk (last_updated s0)\<rparr>)"
proof -
  let ?e3 = "projr (get_monthly_exports_fallback ''soybeans'' 2024 (clk 2))"
  let ?e4 = "projr (get_monthly_exports_fallback ''soybeans'' 2025 (clk 3))"
  let ?e5 = "projr (get_monthly_exports_fallback ''corn'' 2024 (clk 4))"
  let ?e6 = "projr (get_monthly_exports_fallback ''corn'' 2025 (clk 5))"
  define s1 where "s1 = s0\<lparr>cache := [(''balance_soybeans'', get_balance_sheet_fallback ''soybeans'')],
      last_updated := AList.update ''balance_soybeans'' (clk 0) (last_updated s0)\<rparr>"
  define s2 where "s2 = s1\<lparr>cache := cache s1 @ [(''balance_corn'', get_balance_sheet_fallback ''corn'')],
      last_updated := AList.update ''balance_corn'' (clk 1) (last_updated s1)\<rparr>"
  define s3 where "s3 = s2\<lparr>cache := cache s2 @ [(''exports_soybeans_2024'', ?e3)],
      last_updated := AList.update ''exports_soybeans_2024'' (clk 2) (last_updated s2)\<rparr>"
  define s4 where "s4 = s3\<lparr>cache := cache s3 @ [(''exports_soybeans_2025'', ?e4)],
      last_updated := AList.update ''exports_soybeans_2025'' (clk 3) (last_updated s3)\<rparr>"
  define s5 where "s5 = s4\<lparr>cache := cache s4 @ [(''exports_corn_2024'', ?e5)],
      last_updated := AList.update ''exports_corn_2024'' (clk 4) (last_updated s4)\<rparr>"
  define s6 where "s6 = s5\<lparr>cache := cache s5 @ [(''exports_corn_2025'', ?e6)],
      last_updated := AList.update ''exports_corn_2025'' (clk 5) (last_updated s5)\<rparr>"
  have b1: "get_balance_sheet ''soybeans'' 6 (clk 0) s0 =
      (balance_response ''soybeans'' (clk 0)
         (slice_from (- 6) (get_balance_sheet_fallback ''soybeans'')), s1)"
    by (subst get_balance_sheet_miss) (simp_all add: assms s1_def key_values)
  have b2: "get_balance_sheet ''corn'' 6 (clk 1) s1 =
      (balance_response ''corn'' (clk 1)
         (slice_from (- 6) (get_balance_sheet_fallback ''corn'')), s2)"
    by (subst get_balance_sheet_miss) (simp_all add: s1_def s2_def key_values)
  obtain r3 where e3: "get_monthly_exports ''soybeans'' 2024 True (clk 2) s2 = (Inr r3, s3)"
    and d3: "data_of r3 = Some ?e3"
    using get_monthly_exports_miss_state[of s2 "''soybeans''" 2024 True "clk 2"]
    by (auto simp: s1_def s2_def s3_def key_values)
  obtain r4 where e4: "get_monthly_exports ''soybeans'' 2025 True (clk 3) s3 = (Inr r4, s4)"
    and d4: "data_of r4 = Some ?e4"
    using get_monthly_exports_miss_state[of s3 "''soybeans''" 2025 True "clk 3"]
    by (auto simp: s1_def s2_def s3_def s4_def key_values)
  obtain r5 where e5: "get_monthly_exports ''corn'' 2024 True (clk 4) s4 = (Inr r5, s5)"
    and d5: "data_of r5 = Some ?e5"
    using get_monthly_exports_miss_state[of s4 "''corn''" 2024 True "clk 4"]
    by (auto simp: s1_def s2_def s3_def s4_def s5_def key_values)
  obtain r6 where e6: "get_monthly_exports ''corn'' 2025 True (clk 5) s5 = (Inr r6, s6)"
    and d6: "data_of r6 = Some ?e6"
    using get_monthly_exports_miss_state[of s5 "''corn''" 2025 True "clk 5"]
    by (auto simp: s1_def s2_def s3_def s4_def s5_def s6_def key_values)
  have it: "item r ''data'' = Inr (Rows rows)" if "data_of r = Some rows" for r rows
    using that by (auto simp: data_of_def item_def split: option.splits field.splits)
  obtain total rows where
    dest: "get_exports_by_destination ''soybeans'' 2025 10 (clk 12) =
       Inr (destinations_response ''soybeans'' 2025 (clk 12) total (slice_to 10 rows))"
    using get_exports_by_destination_ok by blast
  have st: "s6 = s0\<lparr>cache :=
                 [(''balance_soybeans'', get_balance_sheet_fallback ''soybeans''),
                  (''balance_corn'', get_balance_sheet_fallback ''corn''),
                  (''exports_soybeans_2024'', ?e3),
                  (''exports_soybeans_2025'', ?e4),
                  (''exports_corn_2024'', ?e5),
                  (''exports_corn_2025'', ?e6)],
               last_updated := dashboard_stamps clk (last_updated s0)\<rparr>"
    by (simp add: s1_def s2_def s3_def s4_def s5_def s6_def dashboard_stamps_def key_values)
  have "\<exists>summary. get_dashboard_summary clk s0 = (Inr summary, s6)"
    unfolding get_dashboard_summary_def
    by (simp add: b1 b2 e3 e4 e5 e6 Let_def and_then_def get_monthly_prices_ok dest
          dashboard_bundle_def get_production_def get_exports_by_port_def
          get_soy_complex_balance_def it[OF d3] it[OF d4] it[OF d5] it[OF d6]
          del: One_nat_def)
  then show ?thesis unfolding st .
qed


lemma fallback_Inr_projr:
  "Inr (projr (get_monthly_exports_fallback c y t)) = get_monthly_exports_fallback c y t"
  by (simp add: fallback_rows)

lemma dashboard_keys_values:
  "dashboard_keys = [''balance_soybeans'', ''balance_corn'', ''exports_soybeans_2024'',
     ''exports_soybeans_2025'', ''exports_corn_2024'', ''exports_corn_2025'']"
  by (simp add: dashboard_keys_def key_values)

lemma refresh_all_result:
  "refresh_all clk d s =
     (Inr (),
      s\<lparr>cache :=
           [(''balance_soybeans'', get_balance_sheet_fallback ''soybeans''),
            (''balance_corn'', get_balance_sheet_fallback ''corn''),
            (''exports_soybeans_2024'',
               projr (get_monthly_exports_fallback ''soybeans'' 2024 (clk 2))),
            (''exports_soybeans_2025'',
               projr (get_monthly_exports_fallback ''soybeans'' 2025 (clk 3))),
            (''exports_corn_2024'',
               projr (get_monthly_exports_fallback ''corn'' 2024 (clk 4))),
            (''exports_corn_2025'',
               projr (get_monthly_exports_fallback ''corn'' 2025 (clk 5)))],
         last_updated := dashboard_stamps clk (last_updated s)\<rparr>,
      save_cache_to_disk
        (s\<lparr>cache :=
           [(''balance_soybeans'', get_balance_sheet_fallback ''soybeans''),
            (''balance_corn'', get_balance_sheet_fallback ''corn''),
            (''exports_soybeans_2024'',
               projr (get_monthly_exports_fallback ''soybeans'' 2024 (clk 2))),
            (''exports_soybeans_2025'',
               projr (get_monthly_exports_fallback ''soybeans'' 2025 (clk 3))),
            (''exports_corn_2024'',
               projr (get_monthly_exports_fallback ''corn'' 2024 (clk 4))),
            (''exports_corn_2025'',
               projr (get_monthly_exports_fallback ''corn'' 2025 (clk 5)))],
         last_updated := dashboard_stamps clk (last_updated s)\<rparr>) d)"
proof -
  have "cache (s\<lparr>cache := []\<rparr>) = []" by simp
  from dashboard_from_empty[OF this, of clk]
  obtain summary where "get_dashboard_summary clk (s\<lparr>cache := []\<rparr>) =
     (Inr summary,
      s\<lparr>cache :=
           [(''balance_soybeans'', get_balance_sheet_fallback ''soybeans''),
            (''balance_corn'', get_balance_sheet_fallback ''corn''),
            (''exports_soybeans_2024'',
               projr (get_monthly_exports_fallback ''soybeans'' 2024 (clk 2))),
            (''exports_soybeans_2025'',
               projr (get_monthly_exports_fallback ''soybeans'' 2025 (clk 3))),
            (''exports_corn_2024'',
               projr (get_monthly_exports_fallback ''corn'' 2024 (clk 4))),
            (''exports_corn_2025'',
               projr (get_monthly_exports_fallback ''corn'' 2025 (clk 5)))],
         last_updated := dashboard_stamps clk (last_updated s)\<rparr>)"
    by auto
  then show ?thesis by (simp add: refresh_all_def)
qed

lemma get_balance_sheet_stores:
  "dict_has (cache (snd (get_balance_sheet c y now s))) (balance_key c)"
  by (cases "map_of (cache s) (balance_key c)")
     (simp_all add: get_balance_sheet_miss get_balance_sheet_hit dict_has_def update_conv')

lemma get_monthly_exports_state:
  "snd (get_monthly_exports c y inc now s) =
     (case map_of (cache s) (exports_key c y) of
        Some cached \<Rightarrow> s
      | None \<Rightarrow> s\<lparr>cache := AList.update (exports_key c y)
                        (projr (get_monthly_exports_fallback c y now)) (cache s),
                   last_updated := AList.update (exports_key c y) now (last_updated s)\<rparr>)"
proof (cases "map_of (cache s) (exports_key c y)")
  case None
  then show ?thesis
    using get_monthly_exports_miss_state[OF None, of inc now] by auto
next
  case (Some cached)
  then show ?thesis
    by (simp add: get_monthly_exports_def Let_def split: sum.splits)
qed

lemma get_monthly_exports_stores:
  "dict_has (cache (snd (get_monthly_exports c y inc now s))) (exports_key c y)"
  by (simp add: get_monthly_exports_state dict_has_def update_conv' split: option.splits)

text \<open>
  C3. \<open>refresh_all\<close> completes, and afterwards the cache holds exactly the keys that
  \<open>get_dashboard_summary\<close> populates (the balance sheets of soybeans and corn and
  their monthly exports of 2024 and 2025), each with a freshly computed value:
  nothing of the cache before the refresh is left, whatever it was. A key outside
  that set is absent; a later fetch of a balance sheet or of monthly exports puts
  its key into the cache.
\<close>

theorem refresh_all_cache_keys:
  "\<exists>s' d'. refresh_all clk d s = (Inr (), s', d') \<and>
     dict_keys (cache s') = dashboard_keys \<and>
     map (\<lambda>(k, rows). (k, Inr rows)) (cache s') =
       [(balance_key ''soybeans'', Inr (get_balance_sheet_fallback ''soybeans'')),
        (balance_key ''corn'', Inr (get_balance_sheet_fallback ''corn'')),
        (exports_key ''soybeans'' 2024, get_monthly_exports_fallback ''soybeans'' 2024 (clk 2)),
        (exports_key ''soybeans'' 2025, get_monthly_exports_fallback ''soybeans'' 2025 (clk 3)),
        (exports_key ''corn'' 2024, get_monthly_exports_fallback ''corn'' 2024 (clk 4)),
        (exports_key ''corn'' 2025, get_monthly_exports_fallback ''corn'' 2025 (clk 5))] \<and>
     (\<forall>k. dict_has (cache s') k = (k \<in> set dashboard_keys)) \<and>
     dict_has (cache (snd (get_balance_sheet c y now s'))) (balance_key c) \<and>
     dict_has (cache (snd (get_monthly_exports c y inc now s'))) (exports_key c y)"
  unfolding refresh_all_result
  by (intro exI conjI allI, rule refl)
     (simp_all add: dict_keys_def dashboard_keys_values key_values fallback_Inr_projr
        dict_has_def get_balance_sheet_stores[unfolded dict_has_def]
        get_monthly_exports_stores[unfolded dict_has_def])

subsection \<open>Refresh and the last-updated map\<close>

lemma keys_update_step:
  assumes "dict_keys al = old @ filter (\<lambda>x. x \<notin> set old) ks" and "k \<notin> set ks"
  shows "dict_keys (AList.update k v al) = old @ filter (\<lambda>x. x \<notin> set old) (ks @ [k])"
  using assms by (auto simp: dict_keys_def update_keys)

lemma dashboard_stamps_keys:
  "dict_keys (dashboard_stamps clk lu) =
     dict_keys lu @ filter (\<lambda>k. k \<notin> set (dict_keys lu)) dashboard_keys"
proof -
  let ?old = "dict_keys lu"
  let ?P = "\<lambda>x. x \<notin> set ?old"
  let ?l1 = "AList.update ''balance_soybeans'' (clk 0) lu"
  let ?l2 = "AList.update ''balance_corn'' (clk 1) ?l1"
  let ?l3 = "AList.update ''exports_soybeans_2024'' (clk 2) ?l2"
  let ?l4 = "AList.update ''exports_soybeans_2025'' (clk 3) ?l3"
  let ?l5 = "AList.update ''exports_corn_2024'' (clk 4) ?l4"
  let ?l6 = "AList.update ''exports_corn_2025'' (clk 5) ?l5"
  have 0: "dict_keys lu = ?old @ filter ?P []" by simp
  have 1: "dict_keys ?l1 = ?old @ filter ?P ([] @ [''balance_soybeans''])"
    by (rule keys_update_step[OF 0]) simp
  have 2: "dict_keys ?l2 = ?old @ filter ?P (([] @ [''balance_soybeans'']) @ [''balance_corn''])"
    by (rule keys_update_step[OF 1]) simp
  have 3: "dict_keys ?l3 = ?old @ filter ?P
      ((([] @ [''balance_soybeans'']) @ [''balance_corn'']) @ [''exports_soybeans_2024''])"
    by (rule keys_update_step[OF 2]) simp
  have 4: "dict_keys ?l4 = ?old @ filter ?P
      (((([] @ [''balance_soybeans'']) @ [''balance_corn'']) @ [''exports_soybeans_2024'']) @
       [''exports_soybeans_2025''])"
    by (rule keys_update_step[OF 3]) simp
  have 5: "dict_keys ?l5 = ?old @ filter ?P
      ((((([] @ [''balance_soybeans'']) @ [''balance_corn'']) @ [''exports_soybeans_2024'']) @
       [''exports_soybeans_2025'']) @ [''exports_corn_2024''])"
    by (rule keys_update_step[OF 4]) simp
  have 6: "dict_keys ?l6 = ?old @ filter ?P
      (((((([] @ [''balance_soybeans'']) @ [''balance_corn'']) @ [''exports_soybeans_2024'']) @
       [''exports_soybeans_2025'']) @ [''exports_corn_2024'']) @ [''exports_corn_2025''])"
    by (rule keys_update_step[OF 5]) simp
  have "dashboard_stamps clk lu = ?l6"
    by (simp only: dashboard_stamps_def key_values)
  moreover have "dashboard_keys =
      (((((([] @ [''balance_soybeans'']) @ [''balance_corn'']) @ [''exports_soybeans_2024'']) @
       [''exports_soybeans_2025'']) @ [''exports_corn_2024'']) @ [''exports_corn_2025''])"
    by (simp add: dashboard_keys_values)
  ultimately show ?thesis using 6 by (simp only:)
qed

lemma dashboard_stamps_other:
  "k \<notin> set dashboard_keys \<Longrightarrow> map_of (dashboard_stamps clk lu) k = map_of lu k"
  by (simp add: dashboard_stamps_def dashboard_keys_def update_conv')

lemma dashboard_stamps_new:
  "map (map_of (dashboard_stamps clk lu)) dashboard_keys =
     [Some (clk 0), Some (clk 1), Some (clk 2), Some (clk 3), Some (clk 4), Some (clk 5)]"
  by (simp add: dashboard_stamps_def dashboard_keys_values key_values update_conv'
      del: One_nat_def)

text \<open>
  C10. \<open>refresh_all\<close> clears the cache only, never the last-updated map. After it,
  every key that had a timestamp still has an entry, at the same position, the keys
  of the dashboard that had none being appended; a key outside the dashboard set
  keeps the timestamp it had; the dashboard keys carry the clock readings of their
  new fetches. So \<open>get_status\<close> lists, under \<open>last_updated\<close>, every such earlier key
  with its old timestamp although \<open>cache_keys\<close> (the dashboard keys) no longer has it.
  When such a key is fetched again later, its entry takes the new timestamp and no
  entry is added.
\<close>

theorem refresh_all_keeps_last_updated:
  "\<exists>s' d'. refresh_all clk d s = (Inr (), s', d') \<and>
     dict_keys (last_updated s') =
       dict_keys (last_updated s) @
       filter (\<lambda>k. k \<notin> set (dict_keys (last_updated s))) dashboard_keys \<and>
     (\<forall>k. k \<notin> set dashboard_keys \<longrightarrow> map_of (last_updated s') k = map_of (last_updated s) k) \<and>
     map (map_of (last_updated s')) dashboard_keys =
       [Some (clk 0), Some (clk 1), Some (clk 2), Some (clk 3), Some (clk 4), Some (clk 5)] \<and>
     st_cache_keys (get_status s') = dashboard_keys \<and>
     map fst (st_last_updated (get_status s')) = dict_keys (last_updated s') \<and>
     (\<forall>k t. map_of (last_updated s) k = Some t \<and> k \<notin> set dashboard_keys \<longrightarrow>
        (k, isoformat t) \<in> set (st_last_updated (get_status s')) \<and>
        k \<notin> set (st_cache_keys (get_status s'))) \<and>
     (\<forall>c y now. balance_key c \<notin> set dashboard_keys \<and>
        balance_key c \<in> set (dict_keys (last_updated s')) \<longrightarrow>
        map_of (last_updated (snd (get_balance_sheet c y now s'))) (balance_key c) = Some now \<and>
        dict_keys (last_updated (snd (get_balance_sheet c y now s'))) =
          dict_keys (last_updated s'))"
proof -
  let ?c = "[(''balance_soybeans'', get_balance_sheet_fallback ''soybeans''),
            (''balance_corn'', get_balance_sheet_fallback ''corn''),
            (''exports_soybeans_2024'',
               projr (get_monthly_exports_fallback ''soybeans'' 2024 (clk 2))),
            (''exports_soybeans_2025'',
               projr (get_monthly_exports_fallback ''soybeans'' 2025 (clk 3))),
            (''exports_corn_2024'',
               projr (get_monthly_exports_fallback ''corn'' 2024 (clk 4))),
            (''exports_corn_2025'',
               projr (get_monthly_exports_fallback ''corn'' 2025 (clk 5)))]"
  let ?s = "s\<lparr>cache := ?c, last_updated := dashboard_stamps clk (last_updated s)\<rparr>"
  have r: "refresh_all clk d s = (Inr (), ?s, save_cache_to_disk ?s d)"
    by (rule refresh_all_result)
  have ck: "dict_keys (cache ?s) = dashboard_keys"
    by (simp add: dict_keys_def dashboard_keys_values)
  have a: "dict_keys (last_updated ?s) =
       dict_keys (last_updated s) @
       filter (\<lambda>k. k \<notin> set (dict_keys (last_updated s))) dashboard_keys"
    by (simp add: dashboard_stamps_keys)
  have b: "\<forall>k. k \<notin> set dashboard_keys \<longrightarrow> map_of (last_updated ?s) k = map_of (last_updated s) k"
    by (simp add: dashboard_stamps_other)
  have c: "map (map_of (last_updated ?s)) dashboard_keys =
       [Some (clk 0), Some (clk 1), Some (clk 2), Some (clk 3), Some (clk 4), Some (clk 5)]"
    by (simp add: dashboard_stamps_new)
  have e: "st_cache_keys (get_status ?s) = dashboard_keys"
    using ck by (simp add: get_status_def)
  have f: "map fst (st_last_updated (get_status ?s)) = dict_keys (last_updated ?s)"
    by (simp add: get_status_def dict_keys_def case_prod_beta comp_def)
  have g: "\<forall>k t. map_of (last_updated s) k = Some t \<and> k \<notin> set dashboard_keys \<longrightarrow>
        (k, isoformat t) \<in> set (st_last_updated (get_status ?s)) \<and>
        k \<notin> set (st_cache_keys (get_status ?s))"
  proof (intro allI impI, elim conjE)
    fix k t assume m: "map_of (last_updated s) k = Some t" and n: "k \<notin> set dashboard_keys"
    have "map_of (last_updated ?s) k = Some t" using b m n by simp
    then have "(k, t) \<in> set (last_updated ?s)" by (rule map_of_SomeD)
    then have "(k, isoformat t) \<in> set (st_last_updated (get_status ?s))"
      by (force simp: get_status_def)
    then show "(k, isoformat t) \<in> set (st_last_updated (get_status ?s)) \<and>
        k \<notin> set (st_cache_keys (get_status ?s))"
      using n e by simp
  qed
  have h: "\<forall>c y now. balance_key c \<notin> set dashboard_keys \<and>
        balance_key c \<in> set (dict_keys (last_updated ?s)) \<longrightarrow>
        map_of (last_updated (snd (get_balance_sheet c y now ?s))) (balance_key c) = Some now \<and>
        dict_keys (last_updated (snd (get_balance_sheet c y now ?s))) =
          dict_keys (last_updated ?s)"
  proof (intro allI impI, elim conjE)
    fix c y now
    assume n: "balance_key c \<notin> set dashboard_keys"
      and i: "balance_key c \<in> set (dict_keys (last_updated ?s))"
    have "balance_key c \<notin> set (dict_keys (cache ?s))" using n ck by simp
    then have miss: "map_of (cache ?s) (balance_key c) = None"
      by (simp add: dict_keys_def map_of_eq_None_iff)
    show "map_of (last_updated (snd (get_balance_sheet c y now ?s))) (balance_key c) = Some now \<and>
        dict_keys (last_updated (snd (get_balance_sheet c y now ?s))) =
          dict_keys (last_updated ?s)"
      using i unfolding get_balance_sheet_miss[OF miss]
      by (simp add: update_conv' dict_keys_def update_keys)
  qed
  show ?thesis
    unfolding r
    by (intro exI conjI) (rule refl, rule a, rule b, rule c, rule e, rule f, rule g, rule h)
qed




theorem refresh_all_keeps_last_updated_witness:
  "\<exists>s' d'.
     refresh_all (\<lambda>i. instant_b) \<lparr>content = Missing, writable = True\<rparr>
       (snd (get_balance_sheet ''wheat'' 6 instant_a init_service)) = (Inr (), s', d') \<and>
     st_cache_keys (get_status s') =
       [''balance_soybeans'', ''balance_corn'', ''exports_soybeans_2024'',
        ''exports_soybeans_2025'', ''exports_corn_2024'', ''exports_corn_2025''] \<and>
     map fst (st_last_updated (get_status s')) =
       [''balance_wheat'', ''balance_soybeans'', ''balance_corn'', ''exports_soybeans_2024'',
        ''exports_soybeans_2025'', ''exports_corn_2024'', ''exports_corn_2025''] \<and>
     (''balance_wheat'', isoformat instant_a) \<in> set (st_last_updated (get_status s')) \<and>
     map_of (last_updated s') ''balance_soybeans'' = Some instant_b \<and>
     map_of (last_updated (snd (get_balance_sheet ''wheat'' 6 instant_b s'))) ''balance_wheat'' =
       Some instant_b \<and>
     dict_keys (last_updated (snd (get_balance_sheet ''wheat'' 6 instant_b s'))) =
       [''balance_wheat'', ''balance_soybeans'', ''balance_corn'', ''exports_soybeans_2024'',
        ''exports_soybeans_2025'', ''exports_corn_2024'', ''exports_corn_2025'']"
  using refresh_all_keeps_last_updated
    [of "\<lambda>i. instant_b" "\<lparr>content = Missing, writable = True\<rparr>"
        "snd (get_balance_sheet ''wheat'' 6 instant_a init_service)"]
proof (elim exE conjE)
  let ?s = "snd (get_balance_sheet ''wheat'' 6 instant_a init_service)"
  fix s' d'
  assume
    r: "refresh_all (\<lambda>i. instant_b) \<lparr>content = Missing, writable = True\<rparr> ?s = (Inr (), s', d')" and
    a: "dict_keys (last_updated s') =
       dict_keys (last_updated ?s) @
       filter (\<lambda>k. k \<notin> set (dict_keys (last_updated ?s))) dashboard_keys" and
    c: "map (map_of (last_updated s')) dashboard_keys =
       [Some instant_b, Some instant_b, Some instant_b, Some instant_b, Some instant_b,
        Some instant_b]" and
    e: "st_cache_keys (get_status s') = dashboard_keys" and
    f: "map fst (st_last_updated (get_status s')) = dict_keys (last_updated s')" and
    g: "\<forall>k t. map_of (last_updated ?s) k = Some t \<and> k \<notin> set dashboard_keys \<longrightarrow>
        (k, isoformat t) \<in> set (st_last_updated (get_status s')) \<and>
        k \<notin> set (st_cache_keys (get_status s'))" and
    h: "\<forall>c y now. balance_key c \<notin> set dashboard_keys \<and>
        balance_key c \<in> set (dict_keys (last_updated s')) \<longrightarrow>
        map_of (last_updated (snd (get_balance_sheet c y now s'))) (balance_key c) = Some now \<and>
        dict_keys (last_updated (snd (get_balance_sheet c y now s'))) =
          dict_keys (last_updated s')"
  have w: "balance_key ''wheat'' = ''balance_wheat''" by (simp add: balance_key_def)
  have lu: "last_updated ?s = [(''balance_wheat'', instant_a)]"
    by (simp add: get_balance_sheet_miss init_service_def w)
  have nd: "''balance_wheat'' \<notin> set dashboard_keys"
    by (simp add: dashboard_keys_values)
  have keys: "dict_keys (last_updated s') =
       [''balance_wheat'', ''balance_soybeans'', ''balance_corn'', ''exports_soybeans_2024'',
        ''exports_soybeans_2025'', ''exports_corn_2024'', ''exports_corn_2025'']"
    unfolding a lu by (simp add: dict_keys_def dashboard_keys_values)
  have g': "(''balance_wheat'', isoformat instant_a) \<in> set (st_last_updated (get_status s'))"
    using g[rule_format, of "''balance_wheat''" instant_a] nd by (simp add: lu)
  have h': "map_of (last_updated (snd (get_balance_sheet ''wheat'' 6 instant_b s'))) ''balance_wheat'' =
       Some instant_b \<and>
     dict_keys (last_updated (snd (get_balance_sheet ''wheat'' 6 instant_b s'))) =
       dict_keys (last_updated s')"
    using h[rule_format, of "''wheat''" 6 instant_b] nd by (simp add: w keys)
  have c': "map_of (last_updated s') ''balance_soybeans'' = Some instant_b"
    using c by (simp add: dashboard_keys_values)
  show ?thesis
    using r e f g' h' c' unfolding keys dashboard_keys_values
    by (intro exI[of _ s'] exI[of _ d']) simp
qed

subsection \<open>Persistence\<close>

lemma digit_val_digit_char: "d < 10 \<Longrightarrow> digit_val (digit_char d) = Some d"
proof -
  assume "d < 10"
  then have "d = 0 \<or> d = 1 \<or> d = 2 \<or> d = 3 \<or> d = 4 \<or> d = 5 \<or> d = 6 \<or> d = 7 \<or> d = 8 \<or> d = 9"
    by arith
  then show ?thesis
    by (elim disjE) (simp_all add: digit_val_def digit_char_def)
qed

lemma parse_nat_from_append:
  "parse_nat_from acc (xs @ ys) =
     (case parse_nat_from acc xs of None \<Rightarrow> None | Some a \<Rightarrow> parse_nat_from a ys)"
  by (induction xs arbitrary: acc) (simp_all split: option.splits)

lemma str_nat_small: "n < 10 \<Longrightarrow> str_nat n = [digit_char n]"
  by (subst str_nat.simps) simp

lemma str_nat_large: "\<not> n < 10 \<Longrightarrow> str_nat n = str_nat (n div 10) @ [digit_char (n mod 10)]"
  by (subst str_nat.simps) simp

lemma parse_nat_from_str_nat:
  "parse_nat_from acc (str_nat n) = Some (acc * 10 ^ length (str_nat n) + n)"
proof (induction n arbitrary: acc rule: str_nat.induct)
  case (1 n)
  show ?case
  proof (cases "n < 10")
    case True
    then show ?thesis
      by (simp add: str_nat_small digit_val_digit_char)
  next
    case False
    have ih: "parse_nat_from acc (str_nat (n div 10)) =
            Some (acc * 10 ^ length (str_nat (n div 10)) + n div 10)"
      using False by (rule 1)
    have "(acc * 10 ^ length (str_nat (n div 10)) + n div 10) * 10 + n mod 10 =
          acc * 10 ^ (length (str_nat (n div 10)) + 1) + n"
      by (simp add: algebra_simps)
    then show ?thesis
      by (simp add: str_nat_large[OF False] parse_nat_from_append ih digit_val_digit_char)
  qed
qed

lemma length_str_nat: "n < 10 ^ w \<Longrightarrow> 0 < w \<Longrightarrow> length (str_nat n) \<le> w"
proof (induction n arbitrary: w rule: str_nat.induct)
  case (1 n)
  show ?case
  proof (cases "n < 10")
    case True
    then show ?thesis using 1(3) by (simp add: str_nat_small)
  next
    case False
    then obtain v where w: "w = Suc v" and v: "0 < v"
      using 1(2,3) by (cases w; cases "w - 1") auto
    have "n div 10 < 10 ^ v" using 1(2) unfolding w by (simp add: less_mult_imp_div_less)
    then have "length (str_nat (n div 10)) \<le> v" using v 1(1)[OF False] by blast
    then show ?thesis by (simp add: str_nat_large[OF False] w)
  qed
qed

lemma parse_zeros: "parse_nat_from 0 (replicate k (CHR ''0'') @ s) = parse_nat_from 0 s"
  by (induction k) (simp_all add: digit_val_def)

lemma length_zpad: "n < 10 ^ w \<Longrightarrow> 0 < w \<Longrightarrow> length (zpad w n) = w"
  using length_str_nat[of n w] by (simp add: zpad_def)

lemma str_nat_nonempty: "str_nat n \<noteq> []"
  by (cases "n < 10") (simp_all add: str_nat_small str_nat_large)

lemma parse_digits_zpad: "parse_digits (zpad w n) = Some n"
  by (simp add: parse_digits_def zpad_def str_nat_nonempty parse_zeros parse_nat_from_str_nat)


lemma iso_layout:
  fixes Y M D H Mi S R :: string
  assumes "length Y = 4" "length M = 2" "length D = 2" "length H = 2" "length Mi = 2"
    "length S = 2"
  defines "s \<equiv> Y @ ''-'' @ M @ ''-'' @ D @ ''T'' @ H @ '':'' @ Mi @ '':'' @ S @ R"
  shows "take 4 s = Y" "take 2 (drop 5 s) = M" "take 2 (drop 8 s) = D"
    "take 2 (drop 11 s) = H" "take 2 (drop 14 s) = Mi" "take 2 (drop 17 s) = S"
    "drop 19 s = R" "length s = 19 + length R"
    "s ! 4 = CHR ''-''" "s ! 7 = CHR ''-''" "s ! 10 = CHR ''T''" "s ! 13 = CHR '':''"
    "s ! 16 = CHR '':''"
  using assms(1-6) unfolding s_def by (simp_all add: nth_append)

lemma fromisoformat_naive_fields:
  fixes y mo d h mi se us :: nat
  defines "t \<equiv> \<lparr>dt_year = y, dt_month = mo, dt_day = d, dt_hour = h, dt_minute = mi,
                  dt_second = se, dt_microsecond = us\<rparr>"
  assumes v: "valid_datetime t"
  shows "fromisoformat_naive (isoformat t) = Inr t"
proof -
  let ?R = "if us = 0 then [] else ''.'' @ zpad 6 us"
  have b: "1 \<le> y" "y \<le> 9999" "1 \<le> mo" "mo \<le> 12" "1 \<le> d" "d \<le> 31" "h < 24" "mi < 60"
    "se < 60" "us < 1000000"
    using v by (auto simp: t_def valid_datetime_def days_in_month_def split: if_splits)
  have l: "length (zpad 4 y) = 4" "length (zpad 2 mo) = 2" "length (zpad 2 d) = 2"
    "length (zpad 2 h) = 2" "length (zpad 2 mi) = 2" "length (zpad 2 se) = 2"
    using b by (simp_all add: length_zpad)
  have lu: "length (zpad 6 us) = 6"
    using b by (simp add: length_zpad)
  note lay = iso_layout[OF l, of ?R]
  have iso: "isoformat t =
      zpad 4 y @ ''-'' @ zpad 2 mo @ ''-'' @ zpad 2 d @ ''T'' @ zpad 2 h @ '':'' @
      zpad 2 mi @ '':'' @ zpad 2 se @ ?R"
    by (simp add: isoformat_def t_def)
  show ?thesis
  proof (cases "us = 0")
    case True
    have len: "length (isoformat t) = 19"
      unfolding iso lay(8) using True by simp
    have "fromisoformat_naive (isoformat t) =
            (if valid_datetime \<lparr>dt_year = y, dt_month = mo, dt_day = d, dt_hour = h,
                  dt_minute = mi, dt_second = se, dt_microsecond = 0\<rparr>
             then Inr \<lparr>dt_year = y, dt_month = mo, dt_day = d, dt_hour = h,
                  dt_minute = mi, dt_second = se, dt_microsecond = 0\<rparr>
             else Inl ValueError)"
      unfolding fromisoformat_naive_def Let_def len
      unfolding iso lay
      by (simp add: parse_digits_zpad)
    then show ?thesis using v True by (simp add: t_def)
  next
    case False
    have len: "length (isoformat t) = 26"
      unfolding iso lay(8) using False by (simp add: lu)
    have r: "drop 19 (isoformat t) = ''.'' @ zpad 6 us"
      using lay(7) False unfolding iso[symmetric] by simp
    have "isoformat t ! 19 = hd (drop 19 (isoformat t))"
      using len by (simp add: hd_drop_conv_nth)
    then have dot: "isoformat t ! 19 = CHR ''.''"
      unfolding r by simp
    have "drop 20 (isoformat t) = drop 1 (drop 19 (isoformat t))"
      by simp
    then have frac: "drop 20 (isoformat t) = zpad 6 us"
      unfolding r by simp
    have "fromisoformat_naive (isoformat t) =
            (if valid_datetime t then Inr t else Inl ValueError)"
      unfolding fromisoformat_naive_def Let_def len dot frac
      unfolding iso lay
      by (simp add: parse_digits_zpad t_def)
    then show ?thesis using v by simp
  qed
qed

lemma fromisoformat_naive_isoformat:
  "valid_datetime t \<Longrightarrow> fromisoformat_naive (isoformat t) = Inr t"
  by (cases t) (simp add: fromisoformat_naive_fields)


lemma load_stamps_round_trip:
  assumes "distinct (map fst (acc @ lu))"
      and "\<forall>t \<in> set (map snd lu). fromisoformat (isoformat t) = Inr t"
  shows "load_stamps fromisoformat (map (\<lambda>(k, v). (k, isoformat v)) lu) acc = acc @ lu"
  using assms
proof (induction lu arbitrary: acc)
  case Nil
  then show ?case by simp
next
  case (Cons p lu)
  obtain k t where p: "p = (k, t)" by (cases p)
  have k: "k \<notin> set (map fst acc)" using Cons.prems(1) by (simp add: p)
  have u: "AList.update k t acc = acc @ [(k, t)]"
    using k by (induction acc) auto
  have "load_stamps fromisoformat (map (\<lambda>(k, v). (k, isoformat v)) lu) (acc @ [(k, t)]) =
          (acc @ [(k, t)]) @ lu"
    by (rule Cons.IH) (use Cons.prems in \<open>simp_all add: p\<close>)
  then show ?case using Cons.prems(2) by (simp add: p u)
qed

text \<open>
  C8. Saving a service state to a writable disk and loading the file into a fresh
  service gives back the same cache (same keys, same values) and the same
  last-updated map, each timestamp being the saved one read back from its ISO-8601
  text: when the keys of the last-updated map are distinct (as those of a dictionary
  are) and \<open>fromisoformat\<close> reads back what \<open>isoformat\<close> wrote for the stored
  timestamps. The lemma \<open>fromisoformat_naive_isoformat\<close> above shows that the text
  loses nothing of a valid timestamp, down to the microsecond.
\<close>

theorem persistence_round_trip:
  assumes "distinct (dict_keys (last_updated s))"
      and "\<forall>t \<in> set (map snd (last_updated s)). fromisoformat (isoformat t) = Inr t"
      and "writable d"
  shows "load_cache_from_disk fromisoformat (save_cache_to_disk s d) init_service =
           init_service\<lparr>cache := cache s, last_updated := last_updated s\<rparr>"
proof -
  have "load_stamps fromisoformat (map (\<lambda>(k, v). (k, isoformat v)) (last_updated s)) [] =
          [] @ last_updated s"
    by (rule load_stamps_round_trip) (use assms in \<open>simp_all add: dict_keys_def\<close>)
  then show ?thesis
    using assms(3)
    by (simp add: load_cache_from_disk_def save_cache_to_disk_def init_service_def)
qed


corollary persistence_round_trip_naive:
  assumes "distinct (dict_keys (last_updated s))"
      and "\<forall>t \<in> set (map snd (last_updated s)). valid_datetime t"
      and "writable d"
  shows "load_cache_from_disk fromisoformat_naive (save_cache_to_disk s d) init_service =
           init_service\<lparr>cache := cache s, last_updated := last_updated s\<rparr>"
proof -
  have "load_stamps fromisoformat_naive
          (map (\<lambda>(k, v). (k, isoformat v)) (last_updated s)) [] = [] @ last_updated s"
    by (rule load_stamps_round_trip)
       (use assms in \<open>simp_all add: dict_keys_def fromisoformat_naive_isoformat\<close>)
  then show ?thesis
    using assms(3)
    by (simp add: load_cache_from_disk_def save_cache_to_disk_def init_service_def)
qed

lemma service_b_state:
  "cache service_b =
     [(''balance_wheat'', get_balance_sheet_fallback ''wheat''),
      (''exports_corn_2025'', projr (get_monthly_exports_fallback ''corn'' 2025 instant_b))]"
  "last_updated service_b = [(''balance_wheat'', instant_a), (''exports_corn_2025'', instant_b)]"
  by (simp_all add: service_b_def get_monthly_exports_state get_balance_sheet_miss
      init_service_def key_values balance_key_def)

lemma valid_instants: "valid_datetime instant_a" "valid_datetime instant_b"
  by (simp_all add: valid_datetime_def instant_a_def instant_b_def days_in_month_def is_leap_def)

theorem persistence_round_trip_witness:
  "distinct (dict_keys (last_updated service_b)) \<and>
   list_all (\<lambda>t. fromisoformat_naive (isoformat t) = Inr t) (map snd (last_updated service_b)) \<and>
   writable \<lparr>content = Missing, writable = True\<rparr> \<and>
   load_cache_from_disk fromisoformat_naive
     (save_cache_to_disk service_b \<lparr>content = Missing, writable = True\<rparr>) init_service =
     init_service\<lparr>cache := cache service_b, last_updated := last_updated service_b\<rparr> \<and>
   dict_keys (last_updated service_b) = [''balance_wheat'', ''exports_corn_2025'']"
proof -
  have a: "distinct (dict_keys (last_updated service_b))"
    by (simp add: service_b_state dict_keys_def)
  have b: "\<forall>t \<in> set (map snd (last_updated service_b)).
             fromisoformat_naive (isoformat t) = Inr t"
    by (simp add: service_b_state fromisoformat_naive_isoformat valid_instants)
  have c: "writable \<lparr>content = Missing, writable = True\<rparr>" by simp
  from persistence_round_trip [OF a b c] a b c
  show ?thesis by (simp add: list_all_iff service_b_state(2) dict_keys_def)
qed

subsection \<open>Fetching twice\<close>

lemma response_fields [simp]:
  "data_of (production_response c t rows) = Some rows"
  "last_updated_of (production_response c t rows) = Some t"
  "data_of (prices_response c t rows) = Some rows"
  "last_updated_of (prices_response c t rows) = Some t"
  "data_of (destinations_response c y t a rows) = Some rows"
  "last_updated_of (destinations_response c y t a rows) = Some t"
  "data_of (ports_response c y t rows) = Some rows"
  "last_updated_of (ports_response c y t rows) = Some t"
  by (simp_all add: data_of_def last_updated_of_def production_response_def
      prices_response_def destinations_response_def ports_response_def)

lemma covered_stamp:
  assumes "stamps_cover_cache s" and "map_of (cache s) k = Some v"
  shows "dict_get (last_updated s) k a = dict_get (last_updated s) k b"
proof -
  have "k \<in> set (dict_keys (cache s))"
    using assms(2) by (simp add: dict_keys_def) (metis map_of_eq_None_iff option.distinct(1))
  then have "k \<in> fst ` set (last_updated s)"
    using assms(1) by (auto simp: stamps_cover_cache_def dict_keys_def)
  then obtain t where "map_of (last_updated s) k = Some t"
    by (metis map_of_eq_None_iff not_None_eq)
  then show ?thesis by (simp add: dict_get_def)
qed

lemma balance_twice:
  assumes "stamps_cover_cache s"
  shows "fst (get_balance_sheet c y now2 (snd (get_balance_sheet c y now1 s))) =
         fst (get_balance_sheet c y now1 s)"
proof (cases "map_of (cache s) (balance_key c)")
  case None
  let ?s1 = "s\<lparr>cache := AList.update (balance_key c) (get_balance_sheet_fallback c) (cache s),
              last_updated := AList.update (balance_key c) now1 (last_updated s)\<rparr>"
  have h: "map_of (cache ?s1) (balance_key c) = Some (get_balance_sheet_fallback c)"
    by (simp add: update_conv')
  show ?thesis
    unfolding get_balance_sheet_miss[OF None] snd_conv fst_conv get_balance_sheet_hit[OF h]
    by (simp add: dict_get_def update_conv')
next
  case (Some cached)
  show ?thesis
    unfolding get_balance_sheet_hit[OF Some] snd_conv fst_conv
    by (simp only: covered_stamp[OF assms Some, of now2 now1])
qed

lemma exports_twice:
  assumes "exports_cache_ok s" and "stamps_cover_cache s"
  shows "\<exists>r s1. get_monthly_exports c y inc now1 s = (Inr r, s1) \<and>
           get_monthly_exports c y inc now2 s1 = (Inr r, s1)"
proof (cases "map_of (cache s) (exports_key c y)")
  case None
  from get_monthly_exports_miss[OF None, where inc=inc and now=now1]
  obtain rows where f: "get_monthly_exports_fallback c y now1 = Inr rows"
    and g: "get_monthly_exports c y inc now1 s =
         (Inr (exports_response c y now1 rows
                 (JFloat (round_dec 2 (field_sum ''volumeMmt'' rows)))
                 (if inc \<and> c \<in> set [''soybeans'', ''soy_meal'']
                  then JFloat (round_dec 2 (field_sum ''toChinaMt'' rows / 1000000))
                  else JNone)),
          s\<lparr>cache := AList.update (exports_key c y) rows (cache s),
            last_updated := AList.update (exports_key c y) now1 (last_updated s)\<rparr>)"
    by (elim exE conjE)
  let ?s1 = "s\<lparr>cache := AList.update (exports_key c y) rows (cache s),
            last_updated := AList.update (exports_key c y) now1 (last_updated s)\<rparr>"
  have h: "map_of (cache ?s1) (exports_key c y) = Some rows"
    by (simp add: update_conv')
  have "get_monthly_exports c y inc now2 ?s1 =
         (Inr (exports_response c y now1 rows
                 (JFloat (round_dec 2 (field_sum ''volumeMmt'' rows)))
                 (if inc \<and> c \<in> set [''soybeans'', ''soy_meal'']
                  then JFloat (round_dec 2 (field_sum ''toChinaMt'' rows / 1000000))
                  else JNone)), ?s1)"
    unfolding get_monthly_exports_hit[OF h f]
    by (simp add: dict_get_def update_conv')
  with g show ?thesis by blast
next
  case (Some rows)
  have "case map_of (cache s) (exports_key c y) of
          None \<Rightarrow> True
        | Some rows \<Rightarrow> (\<exists>t. get_monthly_exports_fallback c y t = Inr rows)"
    using assms(1) unfolding exports_cache_ok_def by blast
  then obtain t where f: "get_monthly_exports_fallback c y t = Inr rows"
    unfolding Some by auto
  note e1 = get_monthly_exports_hit[OF Some f, where inc=inc and now=now1]
  note e2 = get_monthly_exports_hit[OF Some f, where inc=inc and now=now2]
  show ?thesis
    by (intro exI conjI, rule e1)
       (simp only: e2 covered_stamp[OF assms(2) Some, of now2 now1])
qed


lemma init_service_ok:
  "exports_cache_ok init_service" "balance_cache_ok init_service"
  "stamps_cover_cache init_service"
  by (simp_all add: exports_cache_ok_def balance_cache_ok_def stamps_cover_cache_def
      init_service_def dict_keys_def)

lemma destinations_twice:
  "\<exists>r1 r2. get_exports_by_destination c y n now1 = Inr r1 \<and>
     get_exports_by_destination c y n now2 = Inr r2 \<and>
     data_of r1 = data_of r2 \<and> last_updated_of r1 = Some now1 \<and> last_updated_of r2 = Some now2"
proof -
  obtain total rows where r: "map_err add_calculated destinations_table = Inr rows"
    and g1: "get_exports_by_destination c y n now1 =
       Inr (destinations_response c y now1 total (slice_to n rows))"
    using get_exports_by_destination_ok[of c y n now1] by (elim exE conjE)
  obtain total' rows' where r': "map_err add_calculated destinations_table = Inr rows'"
    and g2: "get_exports_by_destination c y n now2 =
       Inr (destinations_response c y now2 total' (slice_to n rows'))"
    using get_exports_by_destination_ok[of c y n now2] by (elim exE conjE)
  have "rows' = rows" using r r' by simp
  then show ?thesis
    unfolding g1 g2 by simp
qed

text \<open>
  C1 (as amended). Calling a fetch operation twice with the same parameters, at the
  clock readings \<open>now\<close> and then \<open>now'\<close>, with no refresh in between, gives the same
  \<open>data\<close> both times, for each of the six operations. For \<open>get_balance_sheet\<close> and
  \<open>get_monthly_exports\<close>, which go through the cache, the whole second response
  equals the first, \<open>last_updated\<close> included, in a service whose cached keys all have
  a timestamp and whose cached export lists are lists it stored.
  For \<open>get_exports_by_destination\<close>, \<open>get_exports_by_port\<close>, \<open>get_production\<close> and
  \<open>get_monthly_prices\<close>, which do not use the cache, \<open>last_updated\<close> is the clock
  reading of the call itself.
\<close>

theorem fetch_twice_same_data:
  assumes "exports_cache_ok s" and "stamps_cover_cache s"
  shows
    "fst (get_balance_sheet c years now' (snd (get_balance_sheet c years now s))) =
       fst (get_balance_sheet c years now s) \<and>
     (\<exists>r s1. get_monthly_exports c year inc now s = (Inr r, s1) \<and>
        get_monthly_exports c year inc now' s1 = (Inr r, s1)) \<and>
     (\<exists>r1 r2. get_exports_by_destination c year top_n now = Inr r1 \<and>
        get_exports_by_destination c year top_n now' = Inr r2 \<and>
        data_of r1 = data_of r2 \<and>
        last_updated_of r1 = Some now \<and> last_updated_of r2 = Some now') \<and>
     data_of (get_exports_by_port c year now) = data_of (get_exports_by_port c year now') \<and>
     last_updated_of (get_exports_by_port c year now) = Some now \<and>
     last_updated_of (get_exports_by_port c year now') = Some now' \<and>
     data_of (get_production c years state now) = data_of (get_production c years state now') \<and>
     last_updated_of (get_production c years state now) = Some now \<and>
     last_updated_of (get_production c years state now') = Some now' \<and>
     (\<exists>r1 r2. get_monthly_prices c year location now = Inr r1 \<and>
        get_monthly_prices c year location now' = Inr r2 \<and>
        data_of r1 = data_of r2 \<and>
        last_updated_of r1 = Some now \<and> last_updated_of r2 = Some now')"
proof -
  have p: "\<exists>r1 r2. get_monthly_prices c year location now = Inr r1 \<and>
        get_monthly_prices c year location now' = Inr r2 \<and>
        data_of r1 = data_of r2 \<and>
        last_updated_of r1 = Some now \<and> last_updated_of r2 = Some now'"
    unfolding get_monthly_prices_ok by (intro exI conjI, rule refl, rule refl) simp_all
  show ?thesis
    by (intro conjI balance_twice[OF assms(2)] exports_twice[OF assms] destinations_twice p)
       (simp_all add: get_exports_by_port_def get_production_def)
qed

theorem fetch_twice_same_data_witness:
  "exports_cache_ok init_service \<and> stamps_cover_cache init_service \<and>
   fst (get_balance_sheet ''soybeans'' 6 instant_b
          (snd (get_balance_sheet ''soybeans'' 6 instant_a init_service))) =
     fst (get_balance_sheet ''soybeans'' 6 instant_a init_service) \<and>
   last_updated_of (fst (get_balance_sheet ''soybeans'' 6 instant_a init_service)) =
     Some instant_a \<and>
   (\<exists>r s1. get_monthly_exports ''corn'' 2025 True instant_a init_service = (Inr r, s1) \<and>
      get_monthly_exports ''corn'' 2025 True instant_b s1 = (Inr r, s1)) \<and>
   last_updated_of (get_production ''soybeans'' 10 None instant_b) = Some instant_b"
proof -
  have "last_updated_of (fst (get_balance_sheet ''soybeans'' 6 instant_a init_service)) =
          Some instant_a"
    by (simp add: get_balance_sheet_miss init_service_def)
  with fetch_twice_same_data [OF init_service_ok(1) init_service_ok(3),
      where c = "''soybeans''" and years = 6 and now = instant_a and now' = instant_b]
    fetch_twice_same_data [OF init_service_ok(1) init_service_ok(3),
      where c = "''corn''" and year = 2025 and inc = True and now = instant_a
        and now' = instant_b]
    fetch_twice_same_data [OF init_service_ok(1) init_service_ok(3),
      where c = "''soybeans''" and years = 10 and state = None and now' = instant_b]
    init_service_ok
  show ?thesis by simp
qed

theorem fetch_twice_last_updated_counterexample:
  "last_updated_of (get_production ''soybeans'' 10 None instant_b) \<noteq>
   last_updated_of (get_production ''soybeans'' 10 None instant_a)"
  by (simp add: get_production_def instant_a_def instant_b_def)

subsection \<open>Unrecognized commodities\<close>

lemma unknown_tables:
  assumes "commodity \<notin> set (dict_keys NCM_CODES)"
  shows "get_balance_sheet_fallback commodity = []"
    and "get_production_fallback commodity = []"
    and "dict_get price_table commodity [] = []"
    and "export_volumes commodity year = replicate 12 5"
  using assms
  by (simp_all add: NCM_CODES_def dict_keys_def get_balance_sheet_fallback_def
      balance_sheet_table_def get_production_fallback_def production_table_def
      price_table_def export_volumes_def export_patterns_def dict_get_def)

lemma slice_from_Nil [simp]: "slice_from i [] = []"
  by (simp add: slice_from_def)

lemma balance_data_unknown:
  assumes "commodity \<notin> set (dict_keys NCM_CODES)" and "balance_cache_ok s"
  shows "data_of (fst (get_balance_sheet commodity years now s)) = Some []"
proof -
  have "case map_of (cache s) (balance_key commodity) of
          None \<Rightarrow> True | Some rows \<Rightarrow> rows = get_balance_sheet_fallback commodity"
    using assms(2) unfolding balance_cache_ok_def by blast
  then have "stored_series s commodity = []"
    by (simp add: stored_series_def unknown_tables(1)[OF assms(1)] split: option.splits)
  then show ?thesis by (simp add: get_balance_sheet_data)
qed

lemma exports_data_length:
  assumes "exports_cache_ok s"
  shows "map_option length (result_data (fst (get_monthly_exports c y inc now s))) = Some 12"
proof -
  have len: "length rows = 12" if "get_monthly_exports_fallback c y t = Inr rows" for t rows
    using that by (auto simp: fallback_rows)
  show ?thesis
  proof (cases "map_of (cache s) (exports_key c y)")
    case None
    from get_monthly_exports_miss[OF None, where inc=inc and now=now]
    obtain rows where f: "get_monthly_exports_fallback c y now = Inr rows"
      and g: "get_monthly_exports c y inc now s =
         (Inr (exports_response c y now rows
                 (JFloat (round_dec 2 (field_sum ''volumeMmt'' rows)))
                 (if inc \<and> c \<in> set [''soybeans'', ''soy_meal'']
                  then JFloat (round_dec 2 (field_sum ''toChinaMt'' rows / 1000000))
                  else JNone)),
          s\<lparr>cache := AList.update (exports_key c y) rows (cache s),
            last_updated := AList.update (exports_key c y) now (last_updated s)\<rparr>)"
      by (elim exE conjE)
    show ?thesis unfolding g by (simp add: result_data_def len[OF f])
  next
    case (Some rows)
    have "case map_of (cache s) (exports_key c y) of
          None \<Rightarrow> True
        | Some rows \<Rightarrow> (\<exists>t. get_monthly_exports_fallback c y t = Inr rows)"
      using assms unfolding exports_cache_ok_def by blast
    then obtain t where f: "get_monthly_exports_fallback c y t = Inr rows"
      unfolding Some by auto
    show ?thesis
      unfolding get_monthly_exports_hit[OF Some f]
      by (simp add: result_data_def len[OF f])
  qed
qed

lemma map_err_length: "map_err f xs = Inr ys \<Longrightarrow> length ys = length xs"
  by (induction xs arbitrary: ys) (auto split: sum.splits)

lemma destinations_data:
  "\<exists>rows. result_data (get_exports_by_destination c y n now) = Some (slice_to n rows) \<and>
     map_err add_calculated destinations_table = Inr rows \<and> length rows = 10"
proof -
  obtain total rows where r: "map_err add_calculated destinations_table = Inr rows"
    and g: "get_exports_by_destination c y n now =
       Inr (destinations_response c y now total (slice_to n rows))"
    using get_exports_by_destination_ok[of c y n now] by (elim exE conjE)
  have "length rows = 10"
    using map_err_length[OF r] by (simp add: destinations_table_def)
  then show ?thesis
    unfolding g using r by (simp add: result_data_def)
qed

lemma prices_data_unknown:
  assumes "commodity \<notin> set (dict_keys NCM_CODES)"
  shows "result_data (get_monthly_prices commodity year None now) = Some []"
    and "result_data (get_monthly_prices commodity year (Some []) now) = Some []"
    and "location \<noteq> [] \<Longrightarrow>
      map_option length (result_data (get_monthly_prices commodity year (Some location) now)) =
        Some 12"
  by (simp_all add: result_data_def get_monthly_prices_ok get_prices_fallback_rows
      price_locations_def unknown_tables(3)[OF assms] dict_keys_def)





subsection \<open>Cache keys identify their query\<close>

lemma digit_char_not_special:
  "d < 10 \<Longrightarrow> digit_char d \<noteq> CHR ''_'' \<and> digit_char d \<noteq> CHR ''-''"
proof -
  assume "d < 10"
  then have "d = 0 \<or> d = 1 \<or> d = 2 \<or> d = 3 \<or> d = 4 \<or> d = 5 \<or> d = 6 \<or> d = 7 \<or> d = 8 \<or> d = 9"
    by arith
  then show ?thesis
    by (elim disjE) (simp_all add: digit_char_def)
qed

lemma str_nat_chars: "c \<in> set (str_nat n) \<Longrightarrow> c \<noteq> CHR ''_'' \<and> c \<noteq> CHR ''-''"
proof (induction n rule: str_nat.induct)
  case (1 n)
  show ?case
  proof (cases "n < 10")
    case True
    then show ?thesis using 1(2) by (simp add: str_nat_small digit_char_not_special)
  next
    case False
    have "c \<in> set (str_nat (n div 10)) \<or> c = digit_char (n mod 10)"
      using 1(2) unfolding str_nat_large[OF False] by auto
    then show ?thesis
    proof
      assume "c \<in> set (str_nat (n div 10))"
      then show ?thesis using False by (rule 1(1)[rotated])
    next
      assume "c = digit_char (n mod 10)"
      then show ?thesis using digit_char_not_special[of "n mod 10"] by simp
    qed
  qed
qed

lemma str_nat_inj:
  assumes "str_nat a = str_nat b"
  shows "a = b"
proof -
  have "Some a = parse_nat_from 0 (str_nat a)"
    by (simp add: parse_nat_from_str_nat)
  also have "\<dots> = parse_nat_from 0 (str_nat b)"
    by (simp only: assms)
  also have "\<dots> = Some b"
    by (simp add: parse_nat_from_str_nat)
  finally show ?thesis by simp
qed

lemma str_int_no_underscore: "CHR ''_'' \<notin> set (str_int y)"
  using str_nat_chars by (auto simp: str_int_def)

lemma str_int_inj: "str_int a = str_int b \<Longrightarrow> a = b"
proof -
  assume e: "str_int a = str_int b"
  have hd: "hd (str_nat n) \<noteq> CHR ''-''" for n
    using str_nat_chars[of "hd (str_nat n)" n] str_nat_nonempty[of n] by simp
  have ne: "CHR ''-'' # str_nat m \<noteq> str_nat n" for m n
    using hd[of n] by (metis list.sel(1))
  show ?thesis
  proof (cases "a < 0"; cases "b < 0")
    assume "a < 0" "b < 0"
    then show ?thesis using e str_nat_inj[of "nat (- a)" "nat (- b)"] by (simp add: str_int_def)
  next
    assume "a < 0" "\<not> b < 0"
    then show ?thesis using e ne by (simp add: str_int_def)
  next
    assume "\<not> a < 0" "b < 0"
    then show ?thesis using e ne[of "nat (- b)" "nat a"] by (simp add: str_int_def)
  next
    assume "\<not> a < 0" "\<not> b < 0"
    then show ?thesis using e str_nat_inj[of "nat a" "nat b"] by (simp add: str_int_def)
  qed
qed

lemma split_at_last_underscore:
  assumes "CHR ''_'' \<notin> set d" and "CHR ''_'' \<notin> set d'"
      and "c @ CHR ''_'' # d = c' @ CHR ''_'' # d'"
  shows "c = c' \<and> d = d'"
  using assms
proof (induction c arbitrary: c')
  case Nil
  then show ?case by (cases c') auto
next
  case (Cons x c)
  show ?case
  proof (cases c')
    case Nil
    then show ?thesis using Cons.prems by auto
  next
    case (Cons x' c'')
    then show ?thesis using Cons.IH[of c''] Cons.prems by auto
  qed
qed

lemma exports_key_inj: "exports_key c y = exports_key c' y' \<Longrightarrow> c = c' \<and> y = y'"
  using split_at_last_underscore[OF str_int_no_underscore str_int_no_underscore, of c y c' y']
  by (auto simp: exports_key_def dest: str_int_inj)

lemma balance_key_inj: "balance_key c = balance_key c' \<Longrightarrow> c = c'"
  by (simp add: balance_key_def)

lemma balance_key_not_exports_key: "balance_key c \<noteq> exports_key c' y"
  by (simp add: balance_key_def exports_key_def)

subsection \<open>The conditions on the service state are kept\<close>

text \<open>
  The conditions \<open>service_ok\<close> and \<open>keys_distinct\<close>, under which some statements above
  are made, hold in the initial state and are kept by every operation that changes
  the state: the two cached fetches, the refresh, and loading a saved file.
\<close>

lemma exports_key_not_balance_key: "exports_key c' y \<noteq> balance_key c"
  by (simp add: balance_key_def exports_key_def)

lemma exports_ok_update_balance:
  assumes "exports_cache_ok s"
  shows "exports_cache_ok (s\<lparr>cache := AList.update (balance_key c) v (cache s),
                              last_updated := l\<rparr>)"
  using assms
  by (simp add: exports_cache_ok_def update_conv' exports_key_not_balance_key)

lemma exports_ok_update_exports:
  assumes "exports_cache_ok s" and "get_monthly_exports_fallback c y t = Inr rows"
  shows "exports_cache_ok (s\<lparr>cache := AList.update (exports_key c y) rows (cache s),
                              last_updated := l\<rparr>)"
  unfolding exports_cache_ok_def
proof (intro allI)
  fix c' y'
  show "case map_of (cache (s\<lparr>cache := AList.update (exports_key c y) rows (cache s),
                              last_updated := l\<rparr>)) (exports_key c' y') of
          None \<Rightarrow> True
        | Some rows \<Rightarrow> \<exists>t. get_monthly_exports_fallback c' y' t = Inr rows"
  proof (cases "exports_key c' y' = exports_key c y")
    case True
    then have "c' = c \<and> y' = y" by (rule exports_key_inj)
    then show ?thesis using assms(2) by (auto simp: update_conv')
  next
    case False
    have "case map_of (cache s) (exports_key c' y') of
          None \<Rightarrow> True
        | Some rows \<Rightarrow> \<exists>t. get_monthly_exports_fallback c' y' t = Inr rows"
      using assms(1) unfolding exports_cache_ok_def by blast
    then show ?thesis using False by (simp add: update_conv')
  qed
qed

lemma balance_ok_update_exports:
  assumes "balance_cache_ok s"
  shows "balance_cache_ok (s\<lparr>cache := AList.update (exports_key c y) v (cache s),
                              last_updated := l\<rparr>)"
  using assms
  by (simp add: balance_cache_ok_def update_conv' balance_key_not_exports_key)

lemma balance_ok_update_balance:
  assumes "balance_cache_ok s"
  shows "balance_cache_ok (s\<lparr>cache := AList.update (balance_key c)
                                         (get_balance_sheet_fallback c) (cache s),
                              last_updated := l\<rparr>)"
  unfolding balance_cache_ok_def
proof (intro allI)
  fix c'
  have "case map_of (cache s) (balance_key c') of
          None \<Rightarrow> True | Some rows \<Rightarrow> rows = get_balance_sheet_fallback c'"
    using assms unfolding balance_cache_ok_def by blast
  then show "case map_of (cache (s\<lparr>cache := AList.update (balance_key c)
                                         (get_balance_sheet_fallback c) (cache s),
                              last_updated := l\<rparr>)) (balance_key c') of
          None \<Rightarrow> True | Some rows \<Rightarrow> rows = get_balance_sheet_fallback c'"
    by (cases "balance_key c' = balance_key c")
       (auto simp: update_conv' dest: balance_key_inj)
qed

lemma stamps_cover_update:
  assumes "stamps_cover_cache s"
  shows "stamps_cover_cache (s\<lparr>cache := AList.update k v (cache s),
                                last_updated := AList.update k t (last_updated s)\<rparr>)"
  using assms by (auto simp: stamps_cover_cache_def dict_keys_def dom_update)

lemma service_ok_init: "service_ok init_service"
  by (simp add: service_ok_def init_service_ok)

lemma service_ok_get_balance_sheet:
  assumes "service_ok s"
  shows "service_ok (snd (get_balance_sheet c y now s))"
proof (cases "map_of (cache s) (balance_key c)")
  case None
  show ?thesis
    unfolding get_balance_sheet_miss[OF None] snd_conv service_ok_def
    using assms
    by (intro conjI exports_ok_update_balance balance_ok_update_balance stamps_cover_update)
       (simp_all add: service_ok_def)
next
  case (Some cached)
  show ?thesis
    unfolding get_balance_sheet_hit[OF Some] snd_conv by (rule assms)
qed

lemma service_ok_get_monthly_exports:
  assumes "service_ok s"
  shows "service_ok (snd (get_monthly_exports c y inc now s))"
proof (cases "map_of (cache s) (exports_key c y)")
  case None
  have f: "get_monthly_exports_fallback c y now =
             Inr (projr (get_monthly_exports_fallback c y now))"
    by (simp only: fallback_Inr_projr)
  show ?thesis
    unfolding get_monthly_exports_state None option.case service_ok_def
    using assms
    by (intro conjI exports_ok_update_exports[OF _ f] balance_ok_update_exports
          stamps_cover_update)
       (simp_all add: service_ok_def)
next
  case (Some cached)
  show ?thesis
    unfolding get_monthly_exports_state Some option.case by (rule assms)
qed


lemma service_ok_cleared: "service_ok (s\<lparr>cache := []\<rparr>)"
  by (simp add: service_ok_def exports_cache_ok_def balance_cache_ok_def
      stamps_cover_cache_def dict_keys_def)

lemma refresh_all_state:
  "fst (snd (refresh_all clk d s)) =
     snd (get_monthly_exports ''corn'' 2025 True (clk 5)
       (snd (get_monthly_exports ''corn'' 2024 True (clk 4)
         (snd (get_monthly_exports ''soybeans'' 2025 True (clk 3)
           (snd (get_monthly_exports ''soybeans'' 2024 True (clk 2)
             (snd (get_balance_sheet ''corn'' 6 (clk 1)
               (snd (get_balance_sheet ''soybeans'' 6 (clk 0) (s\<lparr>cache := []\<rparr>))))))))))))"
  by (simp add: refresh_all_result get_monthly_exports_state get_balance_sheet_miss
      key_values dashboard_stamps_def del: One_nat_def)

lemma service_ok_refresh_all: "service_ok (fst (snd (refresh_all clk d s)))"
  unfolding refresh_all_state
  by (intro service_ok_get_monthly_exports service_ok_get_balance_sheet service_ok_cleared)

lemma service_ok_load_saved:
  assumes "service_ok s"
      and "distinct (dict_keys (last_updated s))"
      and "\<forall>t \<in> set (map snd (last_updated s)). fromisoformat (isoformat t) = Inr t"
      and "writable d"
  shows "service_ok (load_cache_from_disk fromisoformat (save_cache_to_disk s d) init_service)"
proof -
  have "load_stamps fromisoformat (map (\<lambda>(k, v). (k, isoformat v)) (last_updated s)) [] =
          [] @ last_updated s"
    by (rule load_stamps_round_trip) (use assms in \<open>simp_all add: dict_keys_def\<close>)
  then have "load_cache_from_disk fromisoformat (save_cache_to_disk s d) init_service =
           init_service\<lparr>cache := cache s, last_updated := last_updated s\<rparr>"
    using assms(4)
    by (simp add: load_cache_from_disk_def save_cache_to_disk_def init_service_def)
  then show ?thesis
    using assms(1)
    by (simp add: service_ok_def exports_cache_ok_def balance_cache_ok_def
        stamps_cover_cache_def)
qed

lemma service_b_ok: "service_ok service_b"
  unfolding service_b_def
  by (intro service_ok_get_monthly_exports service_ok_get_balance_sheet service_ok_init)


lemma keys_distinct_init: "keys_distinct init_service"
  by (simp add: keys_distinct_def init_service_def dict_keys_def)

lemma keys_distinct_update:
  assumes "keys_distinct s"
  shows "keys_distinct (s\<lparr>cache := AList.update k v (cache s),
                           last_updated := AList.update k t (last_updated s)\<rparr>)"
  using assms by (simp add: keys_distinct_def dict_keys_def distinct_update)

lemma keys_distinct_get_balance_sheet:
  assumes "keys_distinct s"
  shows "keys_distinct (snd (get_balance_sheet c y now s))"
  by (cases "map_of (cache s) (balance_key c)")
     (simp_all add: get_balance_sheet_miss get_balance_sheet_hit keys_distinct_update assms)

lemma keys_distinct_get_monthly_exports:
  assumes "keys_distinct s"
  shows "keys_distinct (snd (get_monthly_exports c y inc now s))"
  by (cases "map_of (cache s) (exports_key c y)")
     (simp_all add: get_monthly_exports_state keys_distinct_update assms)

lemma keys_distinct_refresh_all:
  assumes "keys_distinct s"
  shows "keys_distinct (fst (snd (refresh_all clk d s)))"
proof -
  have "keys_distinct (s\<lparr>cache := []\<rparr>)"
    using assms by (simp add: keys_distinct_def dict_keys_def)
  then show ?thesis
    unfolding refresh_all_state
    by (intro keys_distinct_get_monthly_exports keys_distinct_get_balance_sheet)
qed

end
